theory Spec2Isabelle
  imports Complex_Main "HOL-Library.AList"
begin

section \<open>The StudentTeacher module of rsl\_rl (modules/student\_teacher.py)\<close>

text \<open>
  The class \<^verbatim>\<open>StudentTeacher\<close> is embedded by explicit state passing: the object is a
  record, a method takes the record and returns its result together with the record
  after the call. A Python exception is a value of type \<open>error\<close>; since an exception
  does not undo the assignments made before it, a method that can both mutate and
  raise returns the pair of its outcome and the state it leaves behind.

  Floating-point tensors are idealised: an entry of a tensor is a real number.
\<close>

subsection \<open>Exceptions\<close>

datatype error =
    KeyError string             \<comment> \<open>a dictionary lookup with an absent key\<close>
  | AssertionError              \<comment> \<open>the rank assertion of the constructor\<close>
  | ValueError_noise_std string \<comment> \<open>"Unknown standard deviation type: ..."\<close>
  | ValueError_state_dict       \<comment> \<open>"state\_dict does not contain student or teacher parameters"\<close>
  | RuntimeError                \<comment> \<open>raised by torch (cat, expand, load\_state\_dict)\<close>
  | ValueError_cat              \<comment> \<open>raised by torch.cat for an empty list of tensors\<close>
  | IndexError                  \<comment> \<open>index 0 of a tensor without entries\<close>
  | AttributeError              \<comment> \<open>an attribute that the object does not have\<close>
  | NotImplementedError         \<comment> \<open>raised by forward\<close>
  | NetworkError                \<comment> \<open>any exception leaving a collaborator of rsl\_rl.networks\<close>

subsection \<open>Tensors and the torch operations the module calls\<close>

text \<open>
  A tensor is its shape and its entries in row-major order. The operations below are
  functions of the torch library, which the module imports and which is not part of
  the repository. They follow the documented behaviour of the torch functions of the
  same name, for the arguments this module passes (concatenation along the last axis,
  expansion to the shape of another tensor).
\<close>

datatype tensor = Tensor (shape: "nat list") (data: "real list")

definition ones :: "nat \<Rightarrow> tensor" where
  "ones n = Tensor [n] (replicate n 1)"

definition scale_tensor :: "real \<Rightarrow> tensor \<Rightarrow> tensor" where
  "scale_tensor c t = Tensor (shape t) (map (\<lambda>x. c * x) (data t))"

definition torch_exp :: "tensor \<Rightarrow> tensor" where
  "torch_exp t = Tensor (shape t) (map exp (data t))"

definition torch_log :: "tensor \<Rightarrow> tensor" where
  "torch_log t = Tensor (shape t) (map ln (data t))"

text \<open>The rows of a tensor along its last axis: consecutive blocks of \<open>w\<close> entries.\<close>

fun rows :: "nat \<Rightarrow> nat \<Rightarrow> real list \<Rightarrow> real list list" where
  "rows 0 w xs = []"
| "rows (Suc r) w xs = take w xs # rows r w (drop w xs)"

definition numel :: "nat list \<Rightarrow> nat" where
  "numel sh = prod_list sh"

definition tensor_rows :: "tensor \<Rightarrow> real list list" where
  "tensor_rows t = rows (numel (butlast (shape t))) (last (shape t)) (data t)"

text \<open>
  \<^verbatim>\<open>torch.cat(tensors, dim=-1)\<close>. An empty list is rejected, and so is a
  zero-dimensional tensor. One-dimensional tensors without entries are skipped; the
  remaining tensors must agree in every dimension but the last, and their rows are
  joined.
\<close>

definition cat_skip :: "tensor \<Rightarrow> bool" where
  "cat_skip t = (length (shape t) = 1 \<and> numel (shape t) = 0)"

fun join_rows :: "real list list list \<Rightarrow> real list list" where
  "join_rows [] = []"
| "join_rows [rs] = rs"
| "join_rows (rs # rss) = map (\<lambda>(a, b). a @ b) (zip rs (join_rows rss))"

definition torch_cat :: "tensor list \<Rightarrow> error + tensor" where
  "torch_cat ts =
     (if ts = [] then Inl ValueError_cat
      else if list_ex (\<lambda>t. shape t = []) ts then Inl RuntimeError
      else (case filter (\<lambda>t. \<not> cat_skip t) ts of
              [] \<Rightarrow> Inr (Tensor [0] [])
            | t # us \<Rightarrow>
                if list_ex (\<lambda>u. butlast (shape u) \<noteq> butlast (shape t)) us
                then Inl RuntimeError
                else Inr (Tensor (butlast (shape t) @ [sum_list (map (\<lambda>u. last (shape u)) (t # us))])
                                 (concat (join_rows (map tensor_rows (t # us)))))))"

text \<open>
  \<^verbatim>\<open>source.expand(target_shape)\<close> on the entries: the shapes are aligned at the
  right; a source dimension is kept when it equals the target dimension and repeated
  when it is 1; anything else is rejected, and so is a target of lower rank than the
  source.
\<close>

fun expand_data :: "nat list \<Rightarrow> real list \<Rightarrow> nat list \<Rightarrow> real list option" where
  "expand_data src xs [] = (if src = [] then Some xs else None)"
| "expand_data src xs (e # es) =
     (if length src < Suc (length es) then
        map_option (\<lambda>ys. concat (replicate e ys)) (expand_data src xs es)
      else (case src of
              [] \<Rightarrow> None
            | d # ds \<Rightarrow>
                if d = e then
                  (let parts = map (\<lambda>r. expand_data ds r es) (rows d (numel ds) xs)
                   in if list_all (\<lambda>p. p \<noteq> None) parts then Some (concat (map the parts)) else None)
                else if d = 1 then
                  map_option (\<lambda>ys. concat (replicate e ys)) (expand_data ds xs es)
                else None))"

definition expand_as :: "tensor \<Rightarrow> tensor \<Rightarrow> error + tensor" where
  "expand_as t other =
     (if length (shape other) < length (shape t) then Inl RuntimeError
      else (case expand_data (shape t) (data t) (shape other) of
              None \<Rightarrow> Inl RuntimeError
            | Some ys \<Rightarrow> Inr (Tensor (shape other) ys)))"

subsection \<open>Strings and dictionaries\<close>

text \<open>\<^verbatim>\<open>sub in s\<close> on Python strings: \<open>sub\<close> occurs in \<open>s\<close> as a contiguous block.\<close>

fun str_in :: "string \<Rightarrow> string \<Rightarrow> bool" where
  "str_in sub [] = (sub = [])"
| "str_in sub (c # cs) = (take (length sub) (c # cs) = sub \<or> str_in sub cs)"

text \<open>
  \<^verbatim>\<open>s.replace(old, new)\<close>: every occurrence of \<open>old\<close>, found from the left and
  not overlapping an earlier one, is replaced by \<open>new\<close>.
\<close>

function (sequential) replace :: "string \<Rightarrow> string \<Rightarrow> string \<Rightarrow> string" where
  "replace old new [] = (if old = [] then new else [])"
| "replace old new (c # cs) =
     (if old = [] then new @ c # replace old new cs
      else if take (length old) (c # cs) = old
        then new @ replace old new (drop (length old) (c # cs))
      else c # replace old new cs)"
  by pat_completeness auto
termination
  by (relation "measure (\<lambda>(old, new, s). length s)") auto

text \<open>
  A dictionary whose iteration order matters is the list of its items in insertion
  order; \<open>map_of\<close> is the lookup and \<open>AList.update\<close> the assignment \<^verbatim>\<open>d[k] = v\<close>
  (an existing key keeps its place, a new key goes to the end).
\<close>

type_synonym state_dict = "(string \<times> tensor) list"

type_synonym obs_dict = "(string \<times> tensor) list"

subsection \<open>torch.nn.Module\<close>

datatype module_class = Class_MLP | Class_EmpiricalNormalization | Class_Identity

text \<open>
  The base class of the torch library, as far as the module uses it: the training
  flag with \<^verbatim>\<open>train\<close> and \<^verbatim>\<open>eval\<close>, and \<^verbatim>\<open>load_state_dict\<close>.
  What every \<^verbatim>\<open>nn.Module\<close> carries: its class, its own named parameters and
  buffers (the entries of its \<^verbatim>\<open>state_dict()\<close>), and the training flag. For a
  sub-module the flag stands for the flags of its whole sub-tree, which \<^verbatim>\<open>train\<close>
  sets together.
\<close>

record nn_module =
  cls :: module_class
  tensors :: "(string \<times> tensor) list"
  training :: bool

definition Module_train :: "nn_module \<Rightarrow> bool \<Rightarrow> nn_module" where
  "Module_train m mode = m\<lparr>training := mode\<rparr>"

definition Module_eval :: "nn_module \<Rightarrow> nn_module" where
  "Module_eval m = Module_train m False"

definition Identity :: nn_module where
  "Identity = \<lparr>cls = Class_Identity, tensors = [], training = True\<rparr>"

text \<open>
  \<^verbatim>\<open>Module.load_state_dict(state_dict, strict)\<close>. The own entries are visited in
  order. An entry whose key (behind the prefix of the sub-module) is in the dictionary
  takes the tensor found there when the shapes agree; a difference of the shapes is
  noted and the entry is kept. After all entries the call raises when some shape
  differed, or when \<open>strict\<close> holds and a key is missing or unexpected.

  For an entry without dimensions the loader accepts a one-dimensional tensor and takes
  its element at index 0. On a tensor without entries that indexing raises, and the
  exception leaves the load at once: the entries visited before have been overwritten,
  this one and the later ones have not.
\<close>

definition input_param :: "tensor \<Rightarrow> tensor \<Rightarrow> error + tensor" where
  "input_param p v =
     (if shape p = [] \<and> length (shape v) = 1 then
        (if shape v = [0] then Inl IndexError else Inr (Tensor [] (take 1 (data v))))
      else Inr v)"

fun load_from_state_dict ::
  "state_dict \<Rightarrow> string \<Rightarrow> (string \<times> tensor) list \<Rightarrow> error option \<times> (string \<times> tensor) list" where
  "load_from_state_dict sd prefix [] = (None, [])"
| "load_from_state_dict sd prefix ((name, p) # ps) =
     (case map_of sd (prefix @ name) of
        None \<Rightarrow>
          (case load_from_state_dict sd prefix ps of (e, ps') \<Rightarrow> (e, (name, p) # ps'))
      | Some v \<Rightarrow>
          (case input_param p v of
             Inl e \<Rightarrow> (Some e, (name, p) # ps)
           | Inr v' \<Rightarrow>
               (case load_from_state_dict sd prefix ps of
                  (e, ps') \<Rightarrow> (e, (name, if shape v' = shape p then v' else p) # ps'))))"

text \<open>Whether the loader notes a difference of shapes for some entry.\<close>

definition shape_mismatch :: "state_dict \<Rightarrow> string \<Rightarrow> (string \<times> tensor) list \<Rightarrow> bool" where
  "shape_mismatch sd prefix ps =
     list_ex (\<lambda>(k, p). case map_of sd (prefix @ k) of
                          None \<Rightarrow> False
                        | Some v \<Rightarrow>
                            (case input_param p v of
                               Inl e \<Rightarrow> False
                             | Inr v' \<Rightarrow> shape v' \<noteq> shape p)) ps"

definition prefixed_keys :: "string \<Rightarrow> (string \<times> tensor) list \<Rightarrow> string list" where
  "prefixed_keys prefix ps = map (\<lambda>(k, p). prefix @ k) ps"

definition missing_keys :: "state_dict \<Rightarrow> string list \<Rightarrow> string list" where
  "missing_keys sd keys = filter (\<lambda>k. map_of sd k = None) keys"

definition unexpected_keys :: "state_dict \<Rightarrow> string list \<Rightarrow> string list" where
  "unexpected_keys sd keys = filter (\<lambda>k. k \<notin> set keys) (map fst sd)"

definition load_raises :: "state_dict \<Rightarrow> bool \<Rightarrow> string list \<Rightarrow> bool \<Rightarrow> bool" where
  "load_raises sd strict keys mismatch =
     (mismatch \<or> (strict \<and> (unexpected_keys sd keys \<noteq> [] \<or> missing_keys sd keys \<noteq> [])))"

definition Module_load_state_dict ::
  "nn_module \<Rightarrow> state_dict \<Rightarrow> bool \<Rightarrow> (error + unit) \<times> nn_module" where
  "Module_load_state_dict m sd strict =
     (case load_from_state_dict sd [] (tensors m) of
        (Some e, ps) \<Rightarrow> (Inl e, m\<lparr>tensors := ps\<rparr>)
      | (None, ps) \<Rightarrow>
          (if load_raises sd strict (prefixed_keys [] (tensors m))
                (shape_mismatch sd [] (tensors m))
             then Inl RuntimeError else Inr (),
           m\<lparr>tensors := ps\<rparr>))"

subsection \<open>The collaborators from rsl\_rl.networks\<close>

text \<open>
  Modelled from the spec: the classes \<^verbatim>\<open>MLP\<close> and \<^verbatim>\<open>EmpiricalNormalization\<close> of
  this repository are imported by the module and are not part of its source file.
  The spec treats them as external collaborators of which only the interface is known:
  the approximator is a deterministic function of its parameters and its input, the
  normalizer's \<open>normalize\<close> "never mutates itself", and only \<open>update\<close> changes the
  running statistics. They are parameters of the model: the constructors, the two
  forward functions and the update, each of which may raise (\<open>None\<close>, or \<open>False\<close> in
  the first component of the update's result).
\<close>

record networks =
  new_MLP :: "nat \<Rightarrow> nat \<Rightarrow> nat list \<Rightarrow> string \<Rightarrow> nn_module option"
  MLP_forward :: "nn_module \<Rightarrow> tensor \<Rightarrow> tensor option"
  new_EmpiricalNormalization :: "nat \<Rightarrow> nn_module option"
  EmpiricalNormalization_forward :: "nn_module \<Rightarrow> tensor \<Rightarrow> tensor option"
  EmpiricalNormalization_update :: "nn_module \<Rightarrow> tensor \<Rightarrow> bool \<times> nn_module"

definition raise_None :: "'a option \<Rightarrow> error + 'a" where
  "raise_None r = (case r of None \<Rightarrow> Inl NetworkError | Some y \<Rightarrow> Inr y)"

text \<open>Calling a module, \<^verbatim>\<open>m(x)\<close>, runs the forward function of its class.\<close>

definition call_module :: "networks \<Rightarrow> nn_module \<Rightarrow> tensor \<Rightarrow> error + tensor" where
  "call_module N m x =
     (case cls m of
        Class_Identity \<Rightarrow> Inr x
      | Class_EmpiricalNormalization \<Rightarrow> raise_None (EmpiricalNormalization_forward N m x)
      | Class_MLP \<Rightarrow> raise_None (MLP_forward N m x))"

text \<open>\<^verbatim>\<open>m.update(x)\<close>: only the empirical normalizer has the method.\<close>

definition call_update :: "networks \<Rightarrow> nn_module \<Rightarrow> tensor \<Rightarrow> (error + unit) \<times> nn_module" where
  "call_update N m x =
     (case cls m of
        Class_EmpiricalNormalization \<Rightarrow>
          (case EmpiricalNormalization_update N m x of
             (ok, m') \<Rightarrow> (if ok then Inr () else Inl NetworkError, m'))
      | _ \<Rightarrow> (Inl AttributeError, m))"

subsection \<open>The state of a StudentTeacher\<close>

text \<open>
  \<^verbatim>\<open>torch.distributions.Normal(mean, std)\<close>, built here from two tensors of the same
  shape and without validation of its arguments.
\<close>

datatype Normal = Normal (loc: tensor) (scale: tensor)

text \<open>
  \<^verbatim>\<open>class StudentTeacher(nn.Module)\<close>. As a module the object has its own registered
  parameters (\<open>parameters\<close>, holding \<^verbatim>\<open>std\<close> or \<^verbatim>\<open>log_std\<close>) and its own
  training flag (\<open>self_training\<close>); the four sub-modules are separate objects, each
  in a field of its own.
\<close>

record StudentTeacher =
  parameters :: "(string \<times> tensor) list"
  self_training :: bool
  loaded_teacher :: bool
  obs_groups :: "(string \<times> string list) list"
  student :: nn_module
  student_obs_normalization :: bool
  student_obs_normalizer :: nn_module
  teacher :: nn_module
  teacher_obs_normalization :: bool
  teacher_obs_normalizer :: nn_module
  noise_std_type :: string
  distribution :: "Normal option"

subsection \<open>Construction\<close>

text \<open>
  The two loops of \<^verbatim>\<open>__init__\<close> over the group names of a role: each group is
  looked up in the observations, its rank is asserted to be 2, and the size of its
  last dimension is added to the running width.
\<close>

fun num_obs :: "obs_dict \<Rightarrow> string list \<Rightarrow> nat \<Rightarrow> error + nat" where
  "num_obs obs [] n = Inr n"
| "num_obs obs (obs_group # rest) n =
     (case map_of obs obs_group of
        None \<Rightarrow> Inl (KeyError obs_group)
      | Some t \<Rightarrow>
          if length (shape t) \<noteq> 2 then Inl AssertionError
          else num_obs obs rest (n + last (shape t)))"

text \<open>The normalization slot of a role: the empirical normalizer or the identity.\<close>

definition new_normalizer :: "networks \<Rightarrow> bool \<Rightarrow> nat \<Rightarrow> error + nn_module" where
  "new_normalizer N obs_normalization n =
     (if obs_normalization then raise_None (new_EmpiricalNormalization N n) else Inr Identity)"

text \<open>The action noise parameter, or the error of an unknown noise type.\<close>

definition new_noise :: "string \<Rightarrow> real \<Rightarrow> nat \<Rightarrow> error + (string \<times> tensor) list" where
  "new_noise noise_type init_noise_std num_actions =
     (if noise_type = ''scalar'' then
        Inr [(''std'', scale_tensor init_noise_std (ones num_actions))]
      else if noise_type = ''log'' then
        Inr [(''log_std'', torch_log (scale_tensor init_noise_std (ones num_actions)))]
      else Inl (ValueError_noise_std noise_type))"

text \<open>
  \<^verbatim>\<open>__init__\<close>, in the order of the source: the widths of both roles, the student
  and its normalizer, the teacher (put into evaluation mode) and its normalizer, the
  noise parameter. Extra keyword arguments are only printed and are left out. An
  exception leaves no object behind.
\<close>

definition StudentTeacher_init ::
  "networks \<Rightarrow> obs_dict \<Rightarrow> (string \<times> string list) list \<Rightarrow> nat \<Rightarrow> bool \<Rightarrow> bool \<Rightarrow>
   nat list \<Rightarrow> nat list \<Rightarrow> string \<Rightarrow> real \<Rightarrow> string \<Rightarrow> error + StudentTeacher" where
  "StudentTeacher_init N obs groups num_actions student_norm teacher_norm
       student_hidden_dims teacher_hidden_dims activation init_noise_std noise_type =
     (case map_of groups ''policy'' of
        None \<Rightarrow> Inl (KeyError ''policy'')
      | Some policy \<Rightarrow>
     (case num_obs obs policy 0 of
        Inl e \<Rightarrow> Inl e
      | Inr num_student_obs \<Rightarrow>
     (case map_of groups ''teacher'' of
        None \<Rightarrow> Inl (KeyError ''teacher'')
      | Some teacher_groups \<Rightarrow>
     (case num_obs obs teacher_groups 0 of
        Inl e \<Rightarrow> Inl e
      | Inr num_teacher_obs \<Rightarrow>
     (case raise_None (new_MLP N num_student_obs num_actions student_hidden_dims activation) of
        Inl e \<Rightarrow> Inl e
      | Inr student_mlp \<Rightarrow>
     (case new_normalizer N student_norm num_student_obs of
        Inl e \<Rightarrow> Inl e
      | Inr student_normalizer \<Rightarrow>
     (case raise_None (new_MLP N num_teacher_obs num_actions teacher_hidden_dims activation) of
        Inl e \<Rightarrow> Inl e
      | Inr teacher_mlp \<Rightarrow>
     (case new_normalizer N teacher_norm num_teacher_obs of
        Inl e \<Rightarrow> Inl e
      | Inr teacher_normalizer \<Rightarrow>
     (case new_noise noise_type init_noise_std num_actions of
        Inl e \<Rightarrow> Inl e
      | Inr noise \<Rightarrow>
          Inr \<lparr>parameters = noise,
               self_training = True,
               loaded_teacher = False,
               obs_groups = groups,
               student = student_mlp,
               student_obs_normalization = student_norm,
               student_obs_normalizer = student_normalizer,
               teacher = Module_eval teacher_mlp,
               teacher_obs_normalization = teacher_norm,
               teacher_obs_normalizer = teacher_normalizer,
               noise_std_type = noise_type,
               distribution = None\<rparr>)))))))))"

subsection \<open>Routing the observations\<close>

text \<open>
  The loop of \<^verbatim>\<open>get_student_obs\<close> and \<^verbatim>\<open>get_teacher_obs\<close>: the tensors of the
  listed groups, in the listed order; the first absent group raises.
\<close>

fun obs_list :: "obs_dict \<Rightarrow> string list \<Rightarrow> error + tensor list" where
  "obs_list obs [] = Inr []"
| "obs_list obs (obs_group # rest) =
     (case map_of obs obs_group of
        None \<Rightarrow> Inl (KeyError obs_group)
      | Some t \<Rightarrow>
          (case obs_list obs rest of
             Inl e \<Rightarrow> Inl e
           | Inr ts \<Rightarrow> Inr (t # ts)))"

definition get_role_obs :: "string \<Rightarrow> StudentTeacher \<Rightarrow> obs_dict \<Rightarrow> error + tensor" where
  "get_role_obs role self obs =
     (case map_of (obs_groups self) role of
        None \<Rightarrow> Inl (KeyError role)
      | Some names \<Rightarrow>
          (case obs_list obs names of
             Inl e \<Rightarrow> Inl e
           | Inr ts \<Rightarrow> torch_cat ts))"

definition get_student_obs :: "StudentTeacher \<Rightarrow> obs_dict \<Rightarrow> error + tensor" where
  "get_student_obs self obs = get_role_obs ''policy'' self obs"

definition get_teacher_obs :: "StudentTeacher \<Rightarrow> obs_dict \<Rightarrow> error + tensor" where
  "get_teacher_obs self obs = get_role_obs ''teacher'' self obs"

subsection \<open>The action distribution\<close>

text \<open>Reading \<^verbatim>\<open>self.std\<close> or \<^verbatim>\<open>self.log_std\<close>: a registered parameter of that name.\<close>

definition get_parameter :: "StudentTeacher \<Rightarrow> string \<Rightarrow> error + tensor" where
  "get_parameter self name =
     (case map_of (parameters self) name of
        None \<Rightarrow> Inl AttributeError
      | Some p \<Rightarrow> Inr p)"

definition noise_std :: "StudentTeacher \<Rightarrow> tensor \<Rightarrow> error + tensor" where
  "noise_std self mean =
     (if noise_std_type self = ''scalar'' then
        (case get_parameter self ''std'' of
           Inl e \<Rightarrow> Inl e
         | Inr p \<Rightarrow> expand_as p mean)
      else if noise_std_type self = ''log'' then
        (case get_parameter self ''log_std'' of
           Inl e \<Rightarrow> Inl e
         | Inr p \<Rightarrow> expand_as (torch_exp p) mean)
      else Inl (ValueError_noise_std (noise_std_type self)))"

definition update_distribution ::
  "networks \<Rightarrow> StudentTeacher \<Rightarrow> tensor \<Rightarrow> (error + unit) \<times> StudentTeacher" where
  "update_distribution N self obs =
     (case call_module N (student self) obs of
        Inl e \<Rightarrow> (Inl e, self)
      | Inr mean \<Rightarrow>
          (case noise_std self mean of
             Inl e \<Rightarrow> (Inl e, self)
           | Inr std \<Rightarrow> (Inr (), self\<lparr>distribution := Some (Normal mean std)\<rparr>)))"

definition action_mean :: "StudentTeacher \<Rightarrow> error + tensor" where
  "action_mean self =
     (case distribution self of None \<Rightarrow> Inl AttributeError | Some d \<Rightarrow> Inr (loc d))"

definition action_std :: "StudentTeacher \<Rightarrow> error + tensor" where
  "action_std self =
     (case distribution self of None \<Rightarrow> Inl AttributeError | Some d \<Rightarrow> Inr (scale d))"

subsection \<open>Acting and evaluating\<close>

text \<open>
  \<^verbatim>\<open>act\<close> draws from the distribution it has just stored. The draw depends on the
  random number generator, which is not part of the object: the outcome of
  \<^verbatim>\<open>distribution.sample()\<close> is an argument of the call (\<open>None\<close> when it raises).
\<close>

definition act ::
  "networks \<Rightarrow> StudentTeacher \<Rightarrow> obs_dict \<Rightarrow> (Normal \<Rightarrow> tensor option) \<Rightarrow>
   (error + tensor) \<times> StudentTeacher" where
  "act N self obs sample =
     (case get_student_obs self obs of
        Inl e \<Rightarrow> (Inl e, self)
      | Inr routed \<Rightarrow>
          (case call_module N (student_obs_normalizer self) routed of
             Inl e \<Rightarrow> (Inl e, self)
           | Inr normalized \<Rightarrow>
               (case update_distribution N self normalized of
                  (Inl e, self') \<Rightarrow> (Inl e, self')
                | (Inr u, self') \<Rightarrow>
                    (case distribution self' of
                       None \<Rightarrow> (Inl AttributeError, self')
                     | Some d \<Rightarrow> (raise_None (sample d), self')))))"

definition act_inference ::
  "networks \<Rightarrow> StudentTeacher \<Rightarrow> obs_dict \<Rightarrow> (error + tensor) \<times> StudentTeacher" where
  "act_inference N self obs =
     (case get_student_obs self obs of
        Inl e \<Rightarrow> (Inl e, self)
      | Inr routed \<Rightarrow>
          (case call_module N (student_obs_normalizer self) routed of
             Inl e \<Rightarrow> (Inl e, self)
           | Inr normalized \<Rightarrow> (call_module N (student self) normalized, self)))"

definition evaluate ::
  "networks \<Rightarrow> StudentTeacher \<Rightarrow> obs_dict \<Rightarrow> (error + tensor) \<times> StudentTeacher" where
  "evaluate N self obs =
     (case get_teacher_obs self obs of
        Inl e \<Rightarrow> (Inl e, self)
      | Inr routed \<Rightarrow>
          (case call_module N (teacher_obs_normalizer self) routed of
             Inl e \<Rightarrow> (Inl e, self)
           | Inr normalized \<Rightarrow> (call_module N (teacher self) normalized, self)))"

definition update_normalization ::
  "networks \<Rightarrow> StudentTeacher \<Rightarrow> obs_dict \<Rightarrow> (error + unit) \<times> StudentTeacher" where
  "update_normalization N self obs =
     (if student_obs_normalization self then
        (case get_student_obs self obs of
           Inl e \<Rightarrow> (Inl e, self)
         | Inr student_obs \<Rightarrow>
             (case call_update N (student_obs_normalizer self) student_obs of
                (r, normalizer') \<Rightarrow> (r, self\<lparr>student_obs_normalizer := normalizer'\<rparr>)))
      else (Inr (), self))"

text \<open>The methods without effect, and \<^verbatim>\<open>forward\<close>, which only raises.\<close>

definition reset :: "StudentTeacher \<Rightarrow> StudentTeacher" where
  "reset self = self"

definition detach_hidden_states :: "StudentTeacher \<Rightarrow> StudentTeacher" where
  "detach_hidden_states self = self"

definition get_hidden_states :: "StudentTeacher \<Rightarrow> tensor option \<times> StudentTeacher" where
  "get_hidden_states self = (None, self)"

definition forward :: "StudentTeacher \<Rightarrow> (error + unit) \<times> StudentTeacher" where
  "forward self = (Inl NotImplementedError, self)"

subsection \<open>Training mode\<close>

text \<open>
  \<^verbatim>\<open>nn.Module.train(mode)\<close> on the whole object sets its own flag and the flag of
  each child; \<^verbatim>\<open>StudentTeacher.train\<close> then puts the teacher and its normalizer back
  into evaluation mode.
\<close>

definition super_train :: "StudentTeacher \<Rightarrow> bool \<Rightarrow> StudentTeacher" where
  "super_train self mode =
     self\<lparr>self_training := mode,
          student := Module_train (student self) mode,
          student_obs_normalizer := Module_train (student_obs_normalizer self) mode,
          teacher := Module_train (teacher self) mode,
          teacher_obs_normalizer := Module_train (teacher_obs_normalizer self) mode\<rparr>"

definition train :: "StudentTeacher \<Rightarrow> bool \<Rightarrow> StudentTeacher" where
  "train self mode =
     (let self1 = super_train self mode;
          self2 = self1\<lparr>teacher := Module_eval (teacher self1)\<rparr>
      in self2\<lparr>teacher_obs_normalizer := Module_eval (teacher_obs_normalizer self2)\<rparr>)"

subsection \<open>Loading a checkpoint\<close>

text \<open>\<^verbatim>\<open>any(marker in key for key in state_dict.keys())\<close>\<close>

definition any_key :: "string \<Rightarrow> state_dict \<Rightarrow> bool" where
  "any_key marker sd = list_ex (\<lambda>key. str_in marker key) (map fst sd)"

text \<open>
  The loop over the items that fills the two renamed dictionaries, the one for the
  teacher and the one for its normalizer.
\<close>

fun rename_keys :: "state_dict \<Rightarrow> state_dict \<times> state_dict \<Rightarrow> state_dict \<times> state_dict" where
  "rename_keys [] acc = acc"
| "rename_keys ((key, v) # items) (teacher_state_dict, teacher_obs_normalizer_state_dict) =
     rename_keys items
       (if str_in ''actor.'' key
          then AList.update (replace ''actor.'' [] key) v teacher_state_dict
          else teacher_state_dict,
        if str_in ''actor_obs_normalizer.'' key
          then AList.update (replace ''actor_obs_normalizer.'' [] key) v
                 teacher_obs_normalizer_state_dict
          else teacher_obs_normalizer_state_dict)"

text \<open>
  \<^verbatim>\<open>super().load_state_dict\<close>: the load of \<open>nn.Module\<close> on the whole object, over
  the own parameters and then the four children behind their attribute names, in the
  order of their registration.
\<close>

definition load_child :: "state_dict \<Rightarrow> string \<Rightarrow> nn_module \<Rightarrow> error option \<times> nn_module" where
  "load_child sd prefix m =
     (case load_from_state_dict sd prefix (tensors m) of (e, ps) \<Rightarrow> (e, m\<lparr>tensors := ps\<rparr>))"

definition state_dict_keys :: "StudentTeacher \<Rightarrow> string list" where
  "state_dict_keys self =
     prefixed_keys [] (parameters self)
     @ prefixed_keys ''student.'' (tensors (student self))
     @ prefixed_keys ''student_obs_normalizer.'' (tensors (student_obs_normalizer self))
     @ prefixed_keys ''teacher.'' (tensors (teacher self))
     @ prefixed_keys ''teacher_obs_normalizer.'' (tensors (teacher_obs_normalizer self))"

definition any_shape_mismatch :: "state_dict \<Rightarrow> StudentTeacher \<Rightarrow> bool" where
  "any_shape_mismatch sd self =
     (shape_mismatch sd [] (parameters self)
      \<or> shape_mismatch sd ''student.'' (tensors (student self))
      \<or> shape_mismatch sd ''student_obs_normalizer.'' (tensors (student_obs_normalizer self))
      \<or> shape_mismatch sd ''teacher.'' (tensors (teacher self))
      \<or> shape_mismatch sd ''teacher_obs_normalizer.'' (tensors (teacher_obs_normalizer self)))"

definition super_load_state_dict ::
  "StudentTeacher \<Rightarrow> state_dict \<Rightarrow> bool \<Rightarrow> (error + unit) \<times> StudentTeacher" where
  "super_load_state_dict self sd strict =
     (case load_from_state_dict sd [] (parameters self) of
        (Some e, own) \<Rightarrow> (Inl e, self\<lparr>parameters := own\<rparr>)
      | (None, own) \<Rightarrow>
     (case load_child sd ''student.'' (student self) of
        (Some e, m1) \<Rightarrow> (Inl e, self\<lparr>parameters := own, student := m1\<rparr>)
      | (None, m1) \<Rightarrow>
     (case load_child sd ''student_obs_normalizer.'' (student_obs_normalizer self) of
        (Some e, m2) \<Rightarrow>
          (Inl e, self\<lparr>parameters := own, student := m1, student_obs_normalizer := m2\<rparr>)
      | (None, m2) \<Rightarrow>
     (case load_child sd ''teacher.'' (teacher self) of
        (Some e, m3) \<Rightarrow>
          (Inl e, self\<lparr>parameters := own, student := m1, student_obs_normalizer := m2,
                       teacher := m3\<rparr>)
      | (None, m3) \<Rightarrow>
     (case load_child sd ''teacher_obs_normalizer.'' (teacher_obs_normalizer self) of
        (Some e, m4) \<Rightarrow>
          (Inl e, self\<lparr>parameters := own, student := m1, student_obs_normalizer := m2,
                       teacher := m3, teacher_obs_normalizer := m4\<rparr>)
      | (None, m4) \<Rightarrow>
          (if load_raises sd strict (state_dict_keys self) (any_shape_mismatch sd self)
             then Inl RuntimeError else Inr (),
           self\<lparr>parameters := own, student := m1, student_obs_normalizer := m2,
                teacher := m3, teacher_obs_normalizer := m4\<rparr>))))))"

text \<open>
  \<^verbatim>\<open>load_state_dict\<close>. The result is the flag "training resumes". An exception of a
  delegated load leaves the method at that point, with the copies already made.
\<close>

definition load_state_dict ::
  "StudentTeacher \<Rightarrow> state_dict \<Rightarrow> bool \<Rightarrow> (error + bool) \<times> StudentTeacher" where
  "load_state_dict self sd strict =
     (if any_key ''actor'' sd then
        (case rename_keys sd ([], []) of
           (teacher_state_dict, teacher_obs_normalizer_state_dict) \<Rightarrow>
             (case Module_load_state_dict (teacher self) teacher_state_dict strict of
                (Inl e, teacher1) \<Rightarrow> (Inl e, self\<lparr>teacher := teacher1\<rparr>)
              | (Inr u, teacher1) \<Rightarrow>
                  (case Module_load_state_dict (teacher_obs_normalizer self)
                          teacher_obs_normalizer_state_dict strict of
                     (Inl e, normalizer1) \<Rightarrow>
                       (Inl e, self\<lparr>teacher := teacher1, teacher_obs_normalizer := normalizer1\<rparr>)
                   | (Inr u, normalizer1) \<Rightarrow>
                       (Inr False,
                        self\<lparr>teacher := Module_eval teacher1,
                             teacher_obs_normalizer := Module_eval normalizer1,
                             loaded_teacher := True\<rparr>))))
      else if any_key ''student'' sd then
        (case super_load_state_dict self sd strict of
           (Inl e, self1) \<Rightarrow> (Inl e, self1)
         | (Inr u, self1) \<Rightarrow>
             (Inr True,
              self1\<lparr>teacher := Module_eval (teacher self1),
                    teacher_obs_normalizer := Module_eval (teacher_obs_normalizer self1),
                    loaded_teacher := True\<rparr>))
      else (Inl ValueError_state_dict, self))"

subsection \<open>Sequences of calls\<close>

text \<open>
  The calls that the training loop makes on a constructed module between two
  checkpoint loads. A call that raises leaves the state it had reached, and the loop
  may go on calling.
\<close>

datatype call =
    Act obs_dict "Normal \<Rightarrow> tensor option"
  | UpdateNormalization obs_dict

fun run_call :: "networks \<Rightarrow> StudentTeacher \<Rightarrow> call \<Rightarrow> StudentTeacher" where
  "run_call N self (Act obs sample) = snd (act N self obs sample)"
| "run_call N self (UpdateNormalization obs) = snd (update_normalization N self obs)"

text \<open>The states a module can be in: constructed, then any of its methods, in any order.\<close>

inductive reachable :: "networks \<Rightarrow> StudentTeacher \<Rightarrow> bool" for N :: networks where
  constructed:
    "StudentTeacher_init N obs groups num_actions student_norm teacher_norm
       student_hidden_dims teacher_hidden_dims activation init_noise_std noise_type = Inr self
     \<Longrightarrow> reachable N self"
| after_reset: "reachable N self \<Longrightarrow> reachable N (reset self)"
| after_forward: "reachable N self \<Longrightarrow> reachable N (snd (forward self))"
| after_update_distribution:
    "reachable N self \<Longrightarrow> reachable N (snd (update_distribution N self x))"
| after_act: "reachable N self \<Longrightarrow> reachable N (snd (act N self obs sample))"
| after_act_inference: "reachable N self \<Longrightarrow> reachable N (snd (act_inference N self obs))"
| after_evaluate: "reachable N self \<Longrightarrow> reachable N (snd (evaluate N self obs))"
| after_get_hidden_states: "reachable N self \<Longrightarrow> reachable N (snd (get_hidden_states self))"
| after_detach_hidden_states: "reachable N self \<Longrightarrow> reachable N (detach_hidden_states self)"
| after_train: "reachable N self \<Longrightarrow> reachable N (train self mode)"
| after_update_normalization:
    "reachable N self \<Longrightarrow> reachable N (snd (update_normalization N self obs))"
| after_load_state_dict:
    "reachable N self \<Longrightarrow> reachable N (snd (load_state_dict self sd strict))"

text \<open>The feature width of a group in a mapping, \<^verbatim>\<open>obs[obs_group].shape[-1]\<close>.\<close>

definition feature_width :: "obs_dict \<Rightarrow> string \<Rightarrow> nat" where
  "feature_width obs g = (case map_of obs g of None \<Rightarrow> 0 | Some t \<Rightarrow> last (shape t))"

definition has_shape :: "obs_dict \<Rightarrow> nat list \<Rightarrow> string \<Rightarrow> bool" where
  "has_shape obs sh g = (case map_of obs g of None \<Rightarrow> False | Some t \<Rightarrow> shape t = sh)"

text \<open>
  The items that the loop of the prior-policy branch renames for one marker: the items
  whose key contains the marker, with every occurrence of the marker removed from the
  key.
\<close>

definition stripped :: "string \<Rightarrow> state_dict \<Rightarrow> state_dict" where
  "stripped marker sd =
     map (\<lambda>(key, v). (replace marker [] key, v)) (filter (\<lambda>(key, v). str_in marker key) sd)"

text \<open>
  What a load without an indexing error leaves in an entry: the tensor of the
  dictionary (its element at index 0 for an entry without dimensions) when the key is
  there and the shapes agree, the old tensor otherwise.
\<close>

definition load_param :: "state_dict \<Rightarrow> string \<Rightarrow> tensor \<Rightarrow> tensor" where
  "load_param sd key p =
     (case map_of sd key of
        None \<Rightarrow> p
      | Some v \<Rightarrow>
          (case input_param p v of
             Inl e \<Rightarrow> p
           | Inr v' \<Rightarrow> if shape v' = shape p then v' else p))"

definition load_tensors :: "state_dict \<Rightarrow> string \<Rightarrow> (string \<times> tensor) list \<Rightarrow> (string \<times> tensor) list" where
  "load_tensors sd prefix ps = map (\<lambda>(k, p). (k, load_param sd (prefix @ k) p)) ps"

text \<open>Whether the indexing of the loader raises for some entry.\<close>

definition index_error :: "state_dict \<Rightarrow> string \<Rightarrow> (string \<times> tensor) list \<Rightarrow> bool" where
  "index_error sd prefix ps =
     list_ex (\<lambda>(k, p). case map_of sd (prefix @ k) of
                          None \<Rightarrow> False
                        | Some v \<Rightarrow> isl (input_param p v)) ps"

definition any_index_error :: "state_dict \<Rightarrow> StudentTeacher \<Rightarrow> bool" where
  "any_index_error sd self =
     (index_error sd [] (parameters self)
      \<or> index_error sd ''student.'' (tensors (student self))
      \<or> index_error sd ''student_obs_normalizer.'' (tensors (student_obs_normalizer self))
      \<or> index_error sd ''teacher.'' (tensors (teacher self))
      \<or> index_error sd ''teacher_obs_normalizer.'' (tensors (teacher_obs_normalizer self)))"

subsection \<open>A small instance\<close>

text \<open>
  A concrete instance on which the statements below are evaluated. The collaborators
  are the simplest ones that fit the interface: one linear layer whose forward pass
  returns its bias in every row, and a normalizer that passes its input through and
  counts its updates.
\<close>

definition example_networks :: networks where
  "example_networks =
     \<lparr>new_MLP = (\<lambda>n a hidden activation.
        if hidden = [] then None
        else Some \<lparr>cls = Class_MLP,
                   tensors = [(''0.weight'', Tensor [a, n] (replicate (a * n) 0)),
                              (''0.bias'', Tensor [a] (replicate a 0))],
                   training = True\<rparr>),
      MLP_forward = (\<lambda>m x.
        case map_of (tensors m) ''0.bias'' of
          None \<Rightarrow> None
        | Some b \<Rightarrow> Some (Tensor (butlast (shape x) @ shape b)
                            (concat (replicate (numel (butlast (shape x))) (data b))))),
      new_EmpiricalNormalization = (\<lambda>n.
        Some \<lparr>cls = Class_EmpiricalNormalization,
              tensors = [(''_mean'', Tensor [1, n] (replicate n 0)),
                         (''_std'', Tensor [1, n] (replicate n 1)),
                         (''count'', Tensor [] [0])],
              training = True\<rparr>),
      EmpiricalNormalization_forward = (\<lambda>m x. Some x),
      EmpiricalNormalization_update = (\<lambda>m x.
        (True, m\<lparr>tensors := AList.update ''count'' (Tensor [] [1]) (tensors m)\<rparr>))\<rparr>"

definition example_obs :: obs_dict where
  "example_obs = [(''a'', Tensor [1, 2] [1, 2]), (''b'', Tensor [1, 1] [3])]"

definition example_groups :: "(string \<times> string list) list" where
  "example_groups = [(''policy'', [''a'']), (''teacher'', [''a'', ''b''])]"

definition example_module :: StudentTeacher where
  "example_module =
     \<lparr>parameters = [(''std'', Tensor [2] [2, 2])],
      self_training = True,
      loaded_teacher = False,
      obs_groups = example_groups,
      student = \<lparr>cls = Class_MLP,
                 tensors = [(''0.weight'', Tensor [2, 2] [0, 0, 0, 0]),
                            (''0.bias'', Tensor [2] [0, 0])],
                 training = True\<rparr>,
      student_obs_normalization = False,
      student_obs_normalizer = Identity,
      teacher = \<lparr>cls = Class_MLP,
                 tensors = [(''0.weight'', Tensor [2, 3] [0, 0, 0, 0, 0, 0]),
                            (''0.bias'', Tensor [2] [0, 0])],
                 training = False\<rparr>,
      teacher_obs_normalization = False,
      teacher_obs_normalizer = Identity,
      noise_std_type = ''scalar'',
      distribution = None\<rparr>"

definition example_module_log :: StudentTeacher where
  "example_module_log =
     example_module\<lparr>parameters := [(''log_std'', Tensor [2] [ln 2, ln 2])],
                    noise_std_type := ''log''\<rparr>"

text \<open>A checkpoint of a reinforcement-learning run whose actor had a normalizer.\<close>

definition example_policy_checkpoint :: state_dict where
  "example_policy_checkpoint =
     [(''actor.0.weight'', Tensor [2, 3] [1, 2, 3, 4, 5, 6]),
      (''actor.0.bias'', Tensor [2] [7, 8]),
      (''actor_obs_normalizer._mean'', Tensor [1, 3] [0, 0, 0]),
      (''critic.0.weight'', Tensor [1, 3] [0, 0, 0]),
      (''std'', Tensor [2] [1, 1])]"

text \<open>A checkpoint that holds the student only, and one with both markers.\<close>

definition example_student_checkpoint :: state_dict where
  "example_student_checkpoint =
     [(''student.0.weight'', Tensor [2, 2] [1, 2, 3, 4]),
      (''student.0.bias'', Tensor [2] [5, 6])]"

definition example_mixed_checkpoint :: state_dict where
  "example_mixed_checkpoint =
     [(''actor.0.bias'', Tensor [2] [7, 8]),
      (''student.0.bias'', Tensor [2] [5, 6])]"

definition example_critic_checkpoint :: state_dict where
  "example_critic_checkpoint = [(''critic.0.weight'', Tensor [1, 3] [0, 0, 0])]"

definition example_batch :: obs_dict where
  "example_batch = [(''a'', Tensor [2, 2] [1, 2, 3, 4]), (''b'', Tensor [2, 1] [5, 6])]"

definition example_calls :: "call list" where
  "example_calls =
     [Act example_obs (\<lambda>d. Some (loc d)), UpdateNormalization example_obs,
      Act [] (\<lambda>d. None)]"

text \<open>The instance with a role that has no groups.\<close>

definition example_groups_empty :: "(string \<times> string list) list" where
  "example_groups_empty = [(''policy'', []), (''teacher'', [''a'', ''b''])]"

definition example_module_empty :: StudentTeacher where
  "example_module_empty =
     example_module\<lparr>obs_groups := example_groups_empty,
                    student := \<lparr>cls = Class_MLP,
                                tensors = [(''0.weight'', Tensor [2, 0] []),
                                           (''0.bias'', Tensor [2] [0, 0])],
                                training = True\<rparr>\<rparr>"

text \<open>
  The instance with a teacher normalizer, whose update count is an entry without
  dimensions, and two checkpoints that hold the count as a tensor with one element.
\<close>

definition example_module_normalized :: StudentTeacher where
  "example_module_normalized =
     example_module\<lparr>teacher_obs_normalization := True,
                    teacher_obs_normalizer :=
                      \<lparr>cls = Class_EmpiricalNormalization,
                       tensors = [(''_mean'', Tensor [1, 3] [0, 0, 0]),
                                  (''_std'', Tensor [1, 3] [1, 1, 1]),
                                  (''count'', Tensor [] [0])],
                       training = True\<rparr>\<rparr>"

definition example_policy_count_checkpoint :: state_dict where
  "example_policy_count_checkpoint = [(''actor_obs_normalizer.count'', Tensor [1] [5])]"

definition example_student_count_checkpoint :: state_dict where
  "example_student_count_checkpoint =
     [(''student.0.bias'', Tensor [2] [5, 6]),
      (''teacher_obs_normalizer.count'', Tensor [1] [5])]"

section \<open>Properties\<close>

subsection \<open>What a call changes\<close>

lemma act_frame: "\<exists>d. snd (act N self obs sample) = self\<lparr>distribution := d\<rparr>"
  unfolding act_def update_distribution_def
  by (auto split: sum.splits option.splits prod.splits intro: exI[of _ "distribution self"])

lemma update_normalization_frame:
  "\<exists>n. snd (update_normalization N self obs) = self\<lparr>student_obs_normalizer := n\<rparr>
     \<and> (\<not> student_obs_normalization self \<longrightarrow> n = student_obs_normalizer self)"
  unfolding update_normalization_def
  by (auto split: sum.splits prod.splits intro: exI[of _ "student_obs_normalizer self"])

lemma run_call_frame:
  "\<exists>d n. run_call N self c = self\<lparr>distribution := d, student_obs_normalizer := n\<rparr>
     \<and> (\<not> student_obs_normalization self \<longrightarrow> n = student_obs_normalizer self)"
proof (cases c)
  case (Act obs sample)
  obtain d where "snd (act N self obs sample) = self\<lparr>distribution := d\<rparr>"
    using act_frame by blast
  then have "run_call N self c =
      self\<lparr>distribution := d, student_obs_normalizer := student_obs_normalizer self\<rparr>"
    using Act by simp
  then show ?thesis by blast
next
  case (UpdateNormalization obs)
  obtain n where n: "snd (update_normalization N self obs) = self\<lparr>student_obs_normalizer := n\<rparr>"
    and keep: "\<not> student_obs_normalization self \<longrightarrow> n = student_obs_normalizer self"
    using update_normalization_frame by blast
  have "run_call N self c = self\<lparr>distribution := distribution self, student_obs_normalizer := n\<rparr>"
    using UpdateNormalization n by simp
  then show ?thesis using keep by blast
qed

lemma run_calls_frame:
  "\<exists>d n. foldl (run_call N) self calls = self\<lparr>distribution := d, student_obs_normalizer := n\<rparr>
     \<and> (\<not> student_obs_normalization self \<longrightarrow> n = student_obs_normalizer self)"
proof (induction calls rule: rev_induct)
  case Nil
  have "self = self\<lparr>distribution := distribution self, student_obs_normalizer := student_obs_normalizer self\<rparr>"
    by simp
  then show ?case by (metis foldl_Nil)
next
  case (snoc c calls)
  then obtain d n where mid: "foldl (run_call N) self calls = self\<lparr>distribution := d, student_obs_normalizer := n\<rparr>"
    and keep: "\<not> student_obs_normalization self \<longrightarrow> n = student_obs_normalizer self" by blast
  let ?mid = "self\<lparr>distribution := d, student_obs_normalizer := n\<rparr>"
  obtain d' n' where step: "run_call N ?mid c = ?mid\<lparr>distribution := d', student_obs_normalizer := n'\<rparr>"
    and keep': "\<not> student_obs_normalization ?mid \<longrightarrow> n' = student_obs_normalizer ?mid"
    using run_call_frame[of N ?mid c] by blast
  have "foldl (run_call N) self (calls @ [c]) = self\<lparr>distribution := d', student_obs_normalizer := n'\<rparr>"
    using mid step by simp
  moreover have "\<not> student_obs_normalization self \<longrightarrow> n' = student_obs_normalizer self"
    using keep keep' by simp
  ultimately show ?case by blast
qed

text \<open>
  Claim C8. After any sequence of \<^verbatim>\<open>act\<close> and \<^verbatim>\<open>update_normalization\<close> calls the
  teacher and the teacher normalizer are what they were. The state after the sequence
  differs from the state before it in nothing but the stored distribution and the
  student normalizer, and the student normalizer is unchanged as well when student
  normalization is disabled. A single \<^verbatim>\<open>act\<close> changes the distribution only, a single
  \<^verbatim>\<open>update_normalization\<close> the student normalizer only.
\<close>

theorem teacher_isolation:
  "teacher (foldl (run_call N) self calls) = teacher self
   \<and> teacher_obs_normalizer (foldl (run_call N) self calls) = teacher_obs_normalizer self
   \<and> foldl (run_call N) self calls =
       self\<lparr>distribution := distribution (foldl (run_call N) self calls),
            student_obs_normalizer := student_obs_normalizer (foldl (run_call N) self calls)\<rparr>
   \<and> (\<not> student_obs_normalization self \<longrightarrow>
        student_obs_normalizer (foldl (run_call N) self calls) = student_obs_normalizer self)
   \<and> snd (act N self obs sample) =
        self\<lparr>distribution := distribution (snd (act N self obs sample))\<rparr>
   \<and> snd (update_normalization N self obs) =
        self\<lparr>student_obs_normalizer :=
               student_obs_normalizer (snd (update_normalization N self obs))\<rparr>"
proof -
  obtain d n where eq: "foldl (run_call N) self calls = self\<lparr>distribution := d, student_obs_normalizer := n\<rparr>"
    and keep: "\<not> student_obs_normalization self \<longrightarrow> n = student_obs_normalizer self"
    using run_calls_frame[of N self calls] by blast
  show ?thesis
    using keep act_frame[of N self obs sample] update_normalization_frame[of N self obs]
    by (auto simp add: eq)
qed

subsection \<open>Training mode, unknown checkpoints, inference\<close>

lemma foldl_train_snoc: "foldl train self (modes @ [mode]) = train (foldl train self modes) mode"
  by simp

text \<open>
  Claim C7. After \<^verbatim>\<open>train(mode)\<close>, whatever calls of \<^verbatim>\<open>train\<close> came before, the
  teacher and the teacher normalizer are in evaluation mode; the student, its
  normalizer and the module's own flag have the requested mode. The tensors of the
  teacher side are not touched.
\<close>

theorem train_keeps_teacher_in_eval:
  "\<not> training (teacher (foldl train self (modes @ [mode])))
   \<and> \<not> training (teacher_obs_normalizer (foldl train self (modes @ [mode])))
   \<and> training (student (foldl train self (modes @ [mode]))) = mode
   \<and> training (student_obs_normalizer (foldl train self (modes @ [mode]))) = mode
   \<and> self_training (foldl train self (modes @ [mode])) = mode
   \<and> tensors (teacher (foldl train self (modes @ [mode]))) = tensors (teacher (foldl train self modes))
   \<and> tensors (teacher_obs_normalizer (foldl train self (modes @ [mode])))
       = tensors (teacher_obs_normalizer (foldl train self modes))"
  unfolding foldl_train_snoc
  by (cases mode) (simp_all add: train_def super_train_def Module_eval_def Module_train_def Let_def)

text \<open>The statement on the small instance.\<close>

theorem train_keeps_teacher_in_eval_witness:
  "\<not> training (teacher (foldl train example_module ([True, False] @ [True])))
   \<and> \<not> training (teacher_obs_normalizer (foldl train example_module ([True, False] @ [True])))
   \<and> training (student (foldl train example_module ([True, False] @ [True])))
   \<and> self_training (foldl train example_module ([True, False] @ [True]))"
  using train_keeps_teacher_in_eval[of example_module "[True, False]" True]
  by simp

text \<open>
  Claim C3. When no key of the state dictionary contains the marker \<^verbatim>\<open>actor\<close> and
  none the marker \<^verbatim>\<open>student\<close>, \<^verbatim>\<open>load_state_dict\<close> raises the error of an
  unrecognised dictionary and leaves the whole module as it was.
\<close>

theorem load_state_dict_rejects_unknown:
  "\<not> any_key ''actor'' sd \<Longrightarrow> \<not> any_key ''student'' sd \<Longrightarrow>
   load_state_dict self sd strict = (Inl ValueError_state_dict, self)"
  by (simp add: load_state_dict_def)

lemma act_inference_state: "snd (act_inference N self obs) = self"
  by (simp add: act_inference_def split: sum.splits)

lemma act_mean:
  assumes "act N self obs sample = (Inr a, self')"
  shows "fst (act_inference N self obs) = action_mean self'"
  using assms
  unfolding act_def act_inference_def update_distribution_def action_mean_def
  by (auto split: sum.splits option.splits prod.splits)

text \<open>
  Claim C9. \<^verbatim>\<open>act_inference\<close> leaves the module, and so the stored distribution, as it
  was; a second call on the resulting state with the same observations returns the
  same result; and the result is the student mean: whenever \<^verbatim>\<open>act\<close> succeeds on the
  same state and observations, \<^verbatim>\<open>action_mean\<close> after it is what \<^verbatim>\<open>act_inference\<close>
  returns. Its result does not depend on a draw.
\<close>

theorem act_inference_deterministic:
  "snd (act_inference N self obs) = self
   \<and> distribution (snd (act_inference N self obs)) = distribution self
   \<and> fst (act_inference N (snd (act_inference N self obs)) obs) = fst (act_inference N self obs)
   \<and> (act N self obs sample = (Inr a, self') \<longrightarrow>
        fst (act_inference N self obs) = action_mean self')"
  using act_mean[of N self obs sample a self'] by (simp add: act_inference_state)

subsection \<open>The noise type of a reachable state\<close>

lemma new_noise_types:
  "new_noise noise_type c n = Inr noise \<Longrightarrow> noise_type = ''scalar'' \<or> noise_type = ''log''"
  by (simp add: new_noise_def split: if_splits)

lemma init_noise_std_type:
  assumes "StudentTeacher_init N obs groups num_actions student_norm teacher_norm
       student_hidden_dims teacher_hidden_dims activation init_noise_std noise_type = Inr self"
  shows "noise_std_type self = noise_type \<and> (noise_type = ''scalar'' \<or> noise_type = ''log'')"
proof -
  from assms obtain noise where "new_noise noise_type init_noise_std num_actions = Inr noise"
    and "noise_std_type self = noise_type"
    unfolding StudentTeacher_init_def
    by (auto split: option.splits sum.splits)
  then show ?thesis using new_noise_types by blast
qed

lemma init_raises_unknown_noise:
  assumes "noise_type \<noteq> ''scalar''" and "noise_type \<noteq> ''log''"
  shows "\<exists>e. StudentTeacher_init N obs groups num_actions student_norm teacher_norm
       student_hidden_dims teacher_hidden_dims activation init_noise_std noise_type = Inl e"
proof (cases "StudentTeacher_init N obs groups num_actions student_norm teacher_norm
       student_hidden_dims teacher_hidden_dims activation init_noise_std noise_type")
  case (Inl e)
  then show ?thesis by blast
next
  case (Inr self)
  then show ?thesis using init_noise_std_type[OF Inr] assms by blast
qed

lemma update_distribution_noise_type:
  "noise_std_type (snd (update_distribution N self x)) = noise_std_type self"
  by (simp add: update_distribution_def split: sum.splits)

lemma act_noise_type: "noise_std_type (snd (act N self obs sample)) = noise_std_type self"
proof -
  obtain d where "snd (act N self obs sample) = self\<lparr>distribution := d\<rparr>"
    using act_frame by blast
  then show ?thesis by simp
qed

lemma update_normalization_noise_type:
  "noise_std_type (snd (update_normalization N self obs)) = noise_std_type self"
proof -
  obtain n where "snd (update_normalization N self obs) = self\<lparr>student_obs_normalizer := n\<rparr>"
    using update_normalization_frame by blast
  then show ?thesis by simp
qed

lemma evaluate_state: "snd (evaluate N self obs) = self"
  by (simp add: evaluate_def split: sum.splits)

lemma train_noise_type: "noise_std_type (train self mode) = noise_std_type self"
  by (simp add: train_def super_train_def Let_def)

lemma super_load_noise_type:
  "noise_std_type (snd (super_load_state_dict self sd strict)) = noise_std_type self"
  unfolding super_load_state_dict_def
  by (simp split: prod.splits option.splits)

lemma load_state_dict_noise_type:
  "noise_std_type (snd (load_state_dict self sd strict)) = noise_std_type self"
  using super_load_noise_type[of self sd strict]
  unfolding load_state_dict_def
  by (auto split: prod.splits sum.splits)

lemma reachable_noise_type:
  "reachable N self \<Longrightarrow> noise_std_type self = ''scalar'' \<or> noise_std_type self = ''log''"
proof (induction rule: reachable.induct)
  case (constructed obs groups num_actions student_norm teacher_norm student_hidden_dims
      teacher_hidden_dims activation init_noise_std noise_type self)
  then show ?case using init_noise_std_type by blast
next
  case (after_forward self)
  then show ?case by (simp add: forward_def)
next
  case (after_get_hidden_states self)
  then show ?case by (simp add: get_hidden_states_def)
qed (simp_all add: reset_def detach_hidden_states_def update_distribution_noise_type
      act_noise_type act_inference_state evaluate_state train_noise_type
      update_normalization_noise_type load_state_dict_noise_type)

lemma call_module_error: "call_module N m x \<noteq> Inl (ValueError_noise_std t)"
  by (simp add: call_module_def raise_None_def split: module_class.splits option.splits)

lemma noise_std_recognized:
  assumes "noise_std_type self = ''scalar'' \<or> noise_std_type self = ''log''"
  shows "noise_std self mean \<noteq> Inl (ValueError_noise_std t)"
  using assms
  by (auto simp: noise_std_def get_parameter_def expand_as_def split: option.splits)

lemma update_distribution_recognized:
  assumes "noise_std_type self = ''scalar'' \<or> noise_std_type self = ''log''"
  shows "fst (update_distribution N self x) \<noteq> Inl (ValueError_noise_std t)"
  using call_module_error[of N "student self" x t] noise_std_recognized[OF assms, of _ t]
  by (auto simp: update_distribution_def split: sum.splits)

lemma obs_list_error: "obs_list obs names = Inl e \<Longrightarrow> \<exists>g. e = KeyError g"
  by (induction names) (auto split: option.splits sum.splits)

lemma torch_cat_error: "torch_cat ts = Inl e \<Longrightarrow> e = RuntimeError \<or> e = ValueError_cat"
  by (auto simp: torch_cat_def split: if_splits list.splits)

lemma get_role_obs_error:
  "get_role_obs role self obs = Inl e \<Longrightarrow>
     e = RuntimeError \<or> e = ValueError_cat \<or> (\<exists>g. e = KeyError g)"
  unfolding get_role_obs_def
  by (auto split: option.splits sum.splits dest: obs_list_error torch_cat_error)

lemma act_recognized:
  assumes nt: "noise_std_type self = ''scalar'' \<or> noise_std_type self = ''log''"
  shows "fst (act N self obs sample) \<noteq> Inl (ValueError_noise_std t)"
proof (cases "get_student_obs self obs")
  case (Inl e)
  then have "e \<noteq> ValueError_noise_std t"
    using get_role_obs_error[of "''policy''" self obs e] by (auto simp: get_student_obs_def)
  then show ?thesis using Inl by (simp add: act_def)
next
  case routed: (Inr routed)
  show ?thesis
  proof (cases "call_module N (student_obs_normalizer self) routed")
    case (Inl e)
    then have "e \<noteq> ValueError_noise_std t" using call_module_error[of N "student_obs_normalizer self" routed t] by auto
    then show ?thesis using routed Inl by (simp add: act_def)
  next
    case normalized: (Inr normalized)
    obtain r self' where upd: "update_distribution N self normalized = (r, self')"
      by (cases "update_distribution N self normalized")
    have r: "r \<noteq> Inl (ValueError_noise_std t)"
      using update_distribution_recognized[OF nt, of N normalized t] upd by simp
    show ?thesis
      using routed normalized upd r
      by (auto simp: act_def raise_None_def split: sum.splits option.splits)
  qed
qed

text \<open>
  Claim C10. The constructor raises for every noise type other than \<^verbatim>\<open>scalar\<close> and
  \<^verbatim>\<open>log\<close>. In every state that a constructed module reaches through its methods the
  noise type is one of the two, so neither the computation of the standard deviation
  nor \<^verbatim>\<open>update_distribution\<close> nor \<^verbatim>\<open>act\<close> raises the error of an unknown noise type.
\<close>

theorem unknown_noise_type_unreachable:
  "(noise_type \<noteq> ''scalar'' \<and> noise_type \<noteq> ''log'' \<longrightarrow>
      (\<exists>e. StudentTeacher_init N obs groups num_actions student_norm teacher_norm
              student_hidden_dims teacher_hidden_dims activation init_noise_std noise_type = Inl e))
   \<and> (reachable N self \<longrightarrow>
        (noise_std_type self = ''scalar'' \<or> noise_std_type self = ''log'')
        \<and> noise_std self mean \<noteq> Inl (ValueError_noise_std t)
        \<and> fst (update_distribution N self x) \<noteq> Inl (ValueError_noise_std t)
        \<and> fst (act N self obs' sample) \<noteq> Inl (ValueError_noise_std t))"
proof (intro conjI impI)
  assume "noise_type \<noteq> ''scalar'' \<and> noise_type \<noteq> ''log''"
  then show "\<exists>e. StudentTeacher_init N obs groups num_actions student_norm teacher_norm
              student_hidden_dims teacher_hidden_dims activation init_noise_std noise_type = Inl e"
    using init_raises_unknown_noise by simp
next
  assume r: "reachable N self"
  show "noise_std_type self = ''scalar'' \<or> noise_std_type self = ''log''"
    using reachable_noise_type[OF r] .
next
  assume r: "reachable N self"
  show "noise_std self mean \<noteq> Inl (ValueError_noise_std t)"
    using noise_std_recognized[OF reachable_noise_type[OF r]] .
next
  assume r: "reachable N self"
  show "fst (update_distribution N self x) \<noteq> Inl (ValueError_noise_std t)"
    using update_distribution_recognized[OF reachable_noise_type[OF r]] .
next
  assume r: "reachable N self"
  show "fst (act N self obs' sample) \<noteq> Inl (ValueError_noise_std t)"
    using act_recognized[OF reachable_noise_type[OF r]] .
qed

subsection \<open>The width of the routed observations\<close>

lemma num_obs_sum:
  "num_obs obs names n = Inr m \<Longrightarrow> m = n + sum_list (map (feature_width obs) names)"
proof (induction names arbitrary: n)
  case Nil
  then show ?case by simp
next
  case (Cons g names)
  from Cons.prems obtain t where t: "map_of obs g = Some t" "length (shape t) = 2"
    and rest: "num_obs obs names (n + last (shape t)) = Inr m"
    by (auto split: option.splits if_splits)
  have "m = (n + last (shape t)) + sum_list (map (feature_width obs) names)"
    using Cons.IH[OF rest] .
  moreover have "feature_width obs g = last (shape t)"
    using t by (simp add: feature_width_def)
  ultimately show ?case by simp
qed

lemma init_parts:
  assumes "StudentTeacher_init N obs groups num_actions student_norm teacher_norm
       student_hidden_dims teacher_hidden_dims activation init_noise_std noise_type = Inr self"
  shows "\<exists>policy ns teacher_groups nt teacher_mlp.
           map_of groups ''policy'' = Some policy \<and> num_obs obs policy 0 = Inr ns
         \<and> map_of groups ''teacher'' = Some teacher_groups \<and> num_obs obs teacher_groups 0 = Inr nt
         \<and> new_MLP N ns num_actions student_hidden_dims activation = Some (student self)
         \<and> new_MLP N nt num_actions teacher_hidden_dims activation = Some teacher_mlp
         \<and> teacher self = Module_eval teacher_mlp
         \<and> obs_groups self = groups"
  using assms unfolding StudentTeacher_init_def raise_None_def
  by (auto split: option.splits sum.splits)

lemma obs_list_shapes:
  assumes "list_all (\<lambda>g. has_shape obs' [B, w g] g) names"
  shows "\<exists>ts. obs_list obs' names = Inr ts \<and> map shape ts = map (\<lambda>g. [B, w g]) names"
  using assms
  by (induction names) (auto simp: has_shape_def split: option.splits)

lemma torch_cat_2d:
  assumes "ts \<noteq> []" and "map shape ts = map (\<lambda>g. [B, w g]) names"
  shows "\<exists>d. torch_cat ts = Inr (Tensor [B, sum_list (map w names)] d)"
proof -
  have all2: "\<forall>t \<in> set ts. \<exists>x. shape t = [B, x]"
  proof
    fix t assume "t \<in> set ts"
    then have "shape t \<in> set (map shape ts)" by simp
    then show "\<exists>x. shape t = [B, x]" unfolding assms(2) by auto
  qed
  have noskip: "filter (\<lambda>t. \<not> cat_skip t) ts = ts"
    using all2 by (auto simp: cat_skip_def filter_id_conv)
  have nozero: "\<not> list_ex (\<lambda>t. shape t = []) ts"
    using all2 by (auto simp: list_ex_iff)
  obtain t us where ts: "ts = t # us" using assms(1) by (cases ts) auto
  have same: "\<not> list_ex (\<lambda>u. butlast (shape u) \<noteq> butlast (shape t)) us"
    using all2 ts by (fastforce simp: list_ex_iff)
  have bl: "butlast (shape t) = [B]" using all2 ts by fastforce
  have "sum_list (map (\<lambda>u. last (shape u)) ts) = sum_list (map (\<lambda>sh. last sh) (map shape ts))"
    by (simp add: comp_def)
  also have "\<dots> = sum_list (map w names)"
    unfolding assms(2) by (simp add: comp_def)
  finally have width: "sum_list (map (\<lambda>u. last (shape u)) (t # us)) = sum_list (map w names)"
    using ts by simp
  show ?thesis
    using noskip nozero same bl width ts
    by (simp add: torch_cat_def)
qed

text \<open>
  Claim C5, as amended. Let the construction succeed on a mapping \<open>obs\<close> (so every
  group of both roles is there with rank 2). For either role, the width computed by
  the constructor is the sum of the feature widths of the role's groups and is the
  input width handed to the approximator of the role. When the role's list of groups
  is not empty, the router maps observations whose groups have the shapes
  \<open>[B, width]\<close> to a tensor of shape \<open>[B, sum of the widths]\<close>, for every batch size
  \<open>B\<close>. When the list is empty the routing call raises and there is no routed tensor,
  although the construction succeeds with the width 0.
\<close>

theorem router_width:
  assumes init: "StudentTeacher_init N obs groups num_actions student_norm teacher_norm
       student_hidden_dims teacher_hidden_dims activation init_noise_std noise_type = Inr self"
    and role: "role = ''policy'' \<or> role = ''teacher''"
    and names: "map_of groups role = Some names"
    and batch: "list_all (\<lambda>g. has_shape obs' [B, feature_width obs g] g) names"
  shows "num_obs obs names 0 = Inr (sum_list (map (feature_width obs) names))
       \<and> (names \<noteq> [] \<longrightarrow>
            (\<exists>d. get_role_obs role self obs'
                   = Inr (Tensor [B, sum_list (map (feature_width obs) names)] d)))
       \<and> (names = [] \<longrightarrow> isl (get_role_obs role self obs'))
       \<and> (role = ''policy'' \<longrightarrow>
            new_MLP N (sum_list (map (feature_width obs) names)) num_actions
              student_hidden_dims activation = Some (student self))
       \<and> (role = ''teacher'' \<longrightarrow>
            (\<exists>m. new_MLP N (sum_list (map (feature_width obs) names)) num_actions
                    teacher_hidden_dims activation = Some m
                 \<and> teacher self = Module_eval m))"
proof -
  obtain policy ns teacher_groups nt teacher_mlp where
    p: "map_of groups ''policy'' = Some policy" "num_obs obs policy 0 = Inr ns"
    and t: "map_of groups ''teacher'' = Some teacher_groups" "num_obs obs teacher_groups 0 = Inr nt"
    and sm: "new_MLP N ns num_actions student_hidden_dims activation = Some (student self)"
    and tm: "new_MLP N nt num_actions teacher_hidden_dims activation = Some teacher_mlp"
            "teacher self = Module_eval teacher_mlp"
    and og: "obs_groups self = groups"
    using init_parts[OF init] by blast
  have ns: "ns = sum_list (map (feature_width obs) policy)" using num_obs_sum[OF p(2)] by simp
  have nt: "nt = sum_list (map (feature_width obs) teacher_groups)"
    using num_obs_sum[OF t(2)] by simp
  have width: "num_obs obs names 0 = Inr (sum_list (map (feature_width obs) names))"
    using role names p t ns nt by auto
  obtain ts where ts: "obs_list obs' names = Inr ts"
    "map shape ts = map (\<lambda>g. [B, feature_width obs g]) names"
    using obs_list_shapes[OF batch] by blast
  have route: "get_role_obs role self obs' = torch_cat ts"
    using names og ts(1) by (simp add: get_role_obs_def)
  have nonempty: "\<exists>d. get_role_obs role self obs'
                   = Inr (Tensor [B, sum_list (map (feature_width obs) names)] d)"
    if "names \<noteq> []"
  proof -
    have "ts \<noteq> []" using that ts(2) by auto
    then show ?thesis using torch_cat_2d[OF _ ts(2)] route by simp
  qed
  have empty: "isl (get_role_obs role self obs')" if "names = []"
    using that ts route by (simp add: torch_cat_def)
  have pol: "new_MLP N (sum_list (map (feature_width obs) names)) num_actions
              student_hidden_dims activation = Some (student self)" if "role = ''policy''"
    using that names p sm ns by simp
  have tea: "\<exists>m. new_MLP N (sum_list (map (feature_width obs) names)) num_actions
                    teacher_hidden_dims activation = Some m \<and> teacher self = Module_eval m"
    if "role = ''teacher''"
    using that names t tm nt by simp
  show ?thesis using width nonempty empty pol tea by blast
qed

subsection \<open>The two noise parameterizations\<close>

lemma exp_log_positive:
  assumes "list_all (\<lambda>x. 0 < x) (data s)"
  shows "torch_exp (torch_log s) = s"
proof -
  have "map exp (map ln (data s)) = data s"
    using assms by (induction "data s" arbitrary: s) (auto simp: list_all_iff map_idI)
  then show ?thesis by (simp add: torch_exp_def torch_log_def)
qed

text \<open>
  Claim C6, over real arithmetic. For a vector \<open>s\<close> with positive entries, a module in
  \<^verbatim>\<open>log\<close> mode with \<^verbatim>\<open>log_std = log(s)\<close> and a module in \<^verbatim>\<open>scalar\<close> mode with
  \<^verbatim>\<open>std = s\<close> that have the same student compute the same standard deviation for
  every mean, \<^verbatim>\<open>update_distribution\<close> has the same outcome on both, and after it
  \<^verbatim>\<open>action_std\<close> is the same: \<open>s\<close> expanded to the shape of the student's output.
\<close>

theorem noise_parameterization_equivalence:
  assumes positive: "list_all (\<lambda>x. 0 < x) (data s)"
    and log_mode: "noise_std_type self_log = ''log''"
                  "get_parameter self_log ''log_std'' = Inr (torch_log s)"
    and scalar_mode: "noise_std_type self_scalar = ''scalar''"
                     "get_parameter self_scalar ''std'' = Inr s"
    and same_student: "student self_log = student self_scalar"
  shows "noise_std self_log mean = noise_std self_scalar mean
       \<and> fst (update_distribution N self_log x) = fst (update_distribution N self_scalar x)
       \<and> (fst (update_distribution N self_scalar x) = Inr () \<longrightarrow>
            action_std (snd (update_distribution N self_log x))
              = action_std (snd (update_distribution N self_scalar x))
          \<and> (\<exists>mean'. action_std (snd (update_distribution N self_scalar x))
                         = expand_as s mean'
                    \<and> call_module N (student self_scalar) x = Inr mean'))"
proof -
  have std: "noise_std self_log m = noise_std self_scalar m" for m
    using log_mode scalar_mode exp_log_positive[OF positive]
    by (simp add: noise_std_def)
  have scalar: "noise_std self_scalar m = expand_as s m" for m
    using scalar_mode by (simp add: noise_std_def)
  show ?thesis
    using std scalar same_student
    unfolding update_distribution_def action_std_def
    by (auto split: sum.splits)
qed

subsection \<open>The branches of the checkpoint load\<close>

lemma rename_keys_lookup:
  "map_of (fst (rename_keys sd (a, b))) = map_of a ++ map_of (rev (stripped ''actor.'' sd))
   \<and> map_of (snd (rename_keys sd (a, b)))
       = map_of b ++ map_of (rev (stripped ''actor_obs_normalizer.'' sd))"
proof (induction sd arbitrary: a b)
  case Nil
  then show ?case by (simp add: stripped_def)
next
  case (Cons item sd)
  obtain key v where item: "item = (key, v)" by (cases item)
  show ?case
    unfolding item
    by (simp add: Cons.IH stripped_def update_conv' map_add_upd_left
        del: replace.simps str_in.simps)
       (auto simp: map_add_def fun_eq_iff split: option.splits)
qed

lemma input_param_error: "input_param p v = Inl e \<Longrightarrow> e = IndexError"
  by (simp add: input_param_def split: if_splits)

lemma load_from_state_dict_error:
  "fst (load_from_state_dict sd prefix ps)
     = (if index_error sd prefix ps then Some IndexError else None)"
proof (induction ps)
  case Nil
  then show ?case by (simp add: index_error_def)
next
  case (Cons entry ps)
  obtain name p where entry: "entry = (name, p)" by (cases entry)
  show ?case
    using Cons.IH unfolding entry
    by (auto simp: index_error_def split: option.splits sum.splits prod.splits
        dest: input_param_error)
qed

lemma load_from_state_dict_tensors:
  "\<not> index_error sd prefix ps \<Longrightarrow>
     snd (load_from_state_dict sd prefix ps) = load_tensors sd prefix ps"
proof (induction ps)
  case Nil
  then show ?case by (simp add: load_tensors_def)
next
  case (Cons entry ps)
  obtain name p where entry: "entry = (name, p)" by (cases entry)
  have rest: "snd (load_from_state_dict sd prefix ps) = load_tensors sd prefix ps"
    using Cons by (simp add: index_error_def)
  show ?case
    using Cons.prems rest unfolding entry
    by (auto simp: index_error_def load_tensors_def load_param_def
        split: option.splits sum.splits prod.splits)
qed

lemma load_child_result:
  assumes "load_child sd prefix m = (e, m')"
  shows "e = (if index_error sd prefix (tensors m) then Some IndexError else None)
       \<and> (\<not> index_error sd prefix (tensors m) \<longrightarrow>
            tensors m' = load_tensors sd prefix (tensors m))
       \<and> training m' = training m \<and> cls m' = cls m"
  using assms load_from_state_dict_error[of sd prefix "tensors m"]
    load_from_state_dict_tensors[of sd prefix "tensors m"]
  by (auto simp: load_child_def split: prod.splits)

lemma Module_load_flags:
  "training (snd (Module_load_state_dict m sd strict)) = training m
   \<and> cls (snd (Module_load_state_dict m sd strict)) = cls m"
  by (simp add: Module_load_state_dict_def split: prod.splits option.splits)

lemma Module_load_tensors:
  assumes "fst (Module_load_state_dict m sd strict) = Inr ()"
  shows "tensors (snd (Module_load_state_dict m sd strict)) = load_tensors sd [] (tensors m)"
proof -
  have "\<not> index_error sd [] (tensors m)"
    using assms load_from_state_dict_error[of sd "[]" "tensors m"]
    by (auto simp: Module_load_state_dict_def split: prod.splits option.splits if_splits)
  then show ?thesis
    using load_from_state_dict_tensors[of sd "[]" "tensors m"]
    by (auto simp: Module_load_state_dict_def split: prod.splits option.splits)
qed

lemma Module_load_result:
  "fst (Module_load_state_dict m sd strict) = Inr () \<or>
   fst (Module_load_state_dict m sd strict) = Inl RuntimeError \<or>
   fst (Module_load_state_dict m sd strict) = Inl IndexError"
  using load_from_state_dict_error[of sd "[]" "tensors m"]
  by (auto simp: Module_load_state_dict_def split: prod.splits option.splits if_splits)

text \<open>
  Claim C1, as amended. Let some key of the state dictionary contain the marker
  \<^verbatim>\<open>actor\<close>; a key with the marker \<^verbatim>\<open>student\<close> may be present as well. Then
  \<^verbatim>\<open>load_state_dict\<close> takes the prior-policy branch: the student, its normalizer and
  the noise parameter keep their values; the teacher is loaded from the items whose key
  contains \<^verbatim>\<open>actor.\<close>, with that marker removed from the key, and the teacher
  normalizer from the items whose key contains \<^verbatim>\<open>actor_obs_normalizer.\<close>. When both
  delegated loads complete, the flag \<open>loaded_teacher\<close> is set, the teacher and its
  normalizer hold the loaded tensors and are in evaluation mode, and the result is
  \<open>False\<close>. When one of them raises, the exception leaves the method and
  \<open>loaded_teacher\<close> keeps its value.
\<close>

theorem load_prior_policy_checkpoint:
  assumes marker: "any_key ''actor'' sd"
    and renamed: "rename_keys sd ([], []) = (teacher_sd, normalizer_sd)"
    and result: "load_state_dict self sd strict = (r, self')"
  shows "student self' = student self
       \<and> student_obs_normalizer self' = student_obs_normalizer self
       \<and> parameters self' = parameters self
       \<and> map_of teacher_sd = map_of (rev (stripped ''actor.'' sd))
       \<and> map_of normalizer_sd = map_of (rev (stripped ''actor_obs_normalizer.'' sd))
       \<and> (if fst (Module_load_state_dict (teacher self) teacher_sd strict) = Inr ()
             \<and> fst (Module_load_state_dict (teacher_obs_normalizer self) normalizer_sd strict) = Inr ()
           then r = Inr False \<and> loaded_teacher self'
              \<and> \<not> training (teacher self') \<and> \<not> training (teacher_obs_normalizer self')
              \<and> tensors (teacher self') = load_tensors teacher_sd [] (tensors (teacher self))
              \<and> tensors (teacher_obs_normalizer self')
                  = load_tensors normalizer_sd [] (tensors (teacher_obs_normalizer self))
           else (r = Inl RuntimeError \<or> r = Inl IndexError)
              \<and> loaded_teacher self' = loaded_teacher self)"
proof -
  have maps: "map_of teacher_sd = map_of (rev (stripped ''actor.'' sd))"
    "map_of normalizer_sd = map_of (rev (stripped ''actor_obs_normalizer.'' sd))"
    using rename_keys_lookup[of sd "[]" "[]"] renamed by simp_all
  obtain r1 t1 where t1: "Module_load_state_dict (teacher self) teacher_sd strict = (r1, t1)"
    by (cases "Module_load_state_dict (teacher self) teacher_sd strict")
  obtain r2 n1 where n1:
    "Module_load_state_dict (teacher_obs_normalizer self) normalizer_sd strict = (r2, n1)"
    by (cases "Module_load_state_dict (teacher_obs_normalizer self) normalizer_sd strict")
  have t1_tensors: "tensors t1 = load_tensors teacher_sd [] (tensors (teacher self))"
    if "r1 = Inr ()"
    using Module_load_tensors[of "teacher self" teacher_sd strict] t1 that by simp
  have n1_tensors:
    "tensors n1 = load_tensors normalizer_sd [] (tensors (teacher_obs_normalizer self))"
    if "r2 = Inr ()"
    using Module_load_tensors[of "teacher_obs_normalizer self" normalizer_sd strict] n1 that
    by simp
  have r1: "r1 = Inr () \<or> r1 = Inl RuntimeError \<or> r1 = Inl IndexError"
    using Module_load_result[of "teacher self" teacher_sd strict] t1 by simp
  have r2: "r2 = Inr () \<or> r2 = Inl RuntimeError \<or> r2 = Inl IndexError"
    using Module_load_result[of "teacher_obs_normalizer self" normalizer_sd strict] n1 by simp
  have "(r, self') =
      (case r1 of
         Inl e \<Rightarrow> (Inl e, self\<lparr>teacher := t1\<rparr>)
       | Inr u \<Rightarrow>
           (case r2 of
              Inl e \<Rightarrow> (Inl e, self\<lparr>teacher := t1, teacher_obs_normalizer := n1\<rparr>)
            | Inr u \<Rightarrow> (Inr False,
                self\<lparr>teacher := Module_eval t1, teacher_obs_normalizer := Module_eval n1,
                     loaded_teacher := True\<rparr>)))"
    using marker renamed result t1 n1
    by (simp add: load_state_dict_def split: sum.splits)
  then show ?thesis
    using r1 r2 t1 n1 t1_tensors n1_tensors maps
    by (auto simp: Module_eval_def Module_train_def)
qed

text \<open>
  Claim C2, as amended. Let no key contain the marker \<^verbatim>\<open>actor\<close> and some key the
  marker \<^verbatim>\<open>student\<close>. Then the whole dictionary is loaded onto the own parameters and
  the four sub-modules, each behind its prefix. When this load completes under the
  given strictness, every entry holds what the load leaves in it, \<open>loaded_teacher\<close> is
  set, the teacher and its normalizer are in evaluation mode and the result is
  \<open>True\<close>. When it raises (a shape differs, the load is strict and a key is missing or
  unexpected, or the indexing of a tensor without entries fails), the exception leaves
  the method and \<open>loaded_teacher\<close> keeps its value.
\<close>

theorem load_prior_distillation_checkpoint:
  assumes no_actor: "\<not> any_key ''actor'' sd"
    and marker: "any_key ''student'' sd"
    and result: "load_state_dict self sd strict = (r, self')"
  shows "if any_index_error sd self
         then r = Inl IndexError \<and> loaded_teacher self' = loaded_teacher self
         else parameters self' = load_tensors sd [] (parameters self)
            \<and> tensors (student self') = load_tensors sd ''student.'' (tensors (student self))
            \<and> tensors (student_obs_normalizer self')
                = load_tensors sd ''student_obs_normalizer.''
                    (tensors (student_obs_normalizer self))
            \<and> tensors (teacher self') = load_tensors sd ''teacher.'' (tensors (teacher self))
            \<and> tensors (teacher_obs_normalizer self')
                = load_tensors sd ''teacher_obs_normalizer.''
                    (tensors (teacher_obs_normalizer self))
            \<and> (if load_raises sd strict (state_dict_keys self) (any_shape_mismatch sd self)
                then r = Inl RuntimeError \<and> loaded_teacher self' = loaded_teacher self
                else r = Inr True \<and> loaded_teacher self'
                   \<and> \<not> training (teacher self')
                   \<and> \<not> training (teacher_obs_normalizer self'))"
proof -
  obtain e0 own where l0: "load_from_state_dict sd [] (parameters self) = (e0, own)"
    by (cases "load_from_state_dict sd [] (parameters self)")
  obtain e1 m1 where l1: "load_child sd ''student.'' (student self) = (e1, m1)"
    by (cases "load_child sd ''student.'' (student self)")
  obtain e2 m2 where l2:
    "load_child sd ''student_obs_normalizer.'' (student_obs_normalizer self) = (e2, m2)"
    by (cases "load_child sd ''student_obs_normalizer.'' (student_obs_normalizer self)")
  obtain e3 m3 where l3: "load_child sd ''teacher.'' (teacher self) = (e3, m3)"
    by (cases "load_child sd ''teacher.'' (teacher self)")
  obtain e4 m4 where l4:
    "load_child sd ''teacher_obs_normalizer.'' (teacher_obs_normalizer self) = (e4, m4)"
    by (cases "load_child sd ''teacher_obs_normalizer.'' (teacher_obs_normalizer self)")
  have e0: "e0 = (if index_error sd [] (parameters self) then Some IndexError else None)"
    using load_from_state_dict_error[of sd "[]" "parameters self"] l0 by simp
  have own: "\<not> index_error sd [] (parameters self) \<Longrightarrow>
      own = load_tensors sd [] (parameters self)"
    using load_from_state_dict_tensors[of sd "[]" "parameters self"] l0 by simp
  note c1 = load_child_result[OF l1]
  note c2 = load_child_result[OF l2]
  note c3 = load_child_result[OF l3]
  note c4 = load_child_result[OF l4]
  have branch: "load_state_dict self sd strict =
      (case super_load_state_dict self sd strict of
         (Inl e, self1) \<Rightarrow> (Inl e, self1)
       | (Inr u, self1) \<Rightarrow>
           (Inr True,
            self1\<lparr>teacher := Module_eval (teacher self1),
                  teacher_obs_normalizer := Module_eval (teacher_obs_normalizer self1),
                  loaded_teacher := True\<rparr>))"
    using no_actor marker by (simp add: load_state_dict_def)
  show ?thesis
  proof (cases "any_index_error sd self")
    case True
    then have "super_load_state_dict self sd strict
        = (Inl IndexError, snd (super_load_state_dict self sd strict))
      \<and> loaded_teacher (snd (super_load_state_dict self sd strict)) = loaded_teacher self"
      using l0 l1 l2 l3 l4 e0 c1 c2 c3 c4
      unfolding super_load_state_dict_def any_index_error_def
      by (auto split: if_splits)
    then show ?thesis
      using True result branch by (auto split: prod.splits sum.splits)
  next
    case False
    then have none: "e0 = None" "e1 = None" "e2 = None" "e3 = None" "e4 = None"
      and loaded: "own = load_tensors sd [] (parameters self)"
        "tensors m1 = load_tensors sd ''student.'' (tensors (student self))"
        "tensors m2 = load_tensors sd ''student_obs_normalizer.''
            (tensors (student_obs_normalizer self))"
        "tensors m3 = load_tensors sd ''teacher.'' (tensors (teacher self))"
        "tensors m4 = load_tensors sd ''teacher_obs_normalizer.''
            (tensors (teacher_obs_normalizer self))"
      using e0 own c1 c2 c3 c4 unfolding any_index_error_def by auto
    have "super_load_state_dict self sd strict =
       (if load_raises sd strict (state_dict_keys self) (any_shape_mismatch sd self)
          then Inl RuntimeError else Inr (),
        self\<lparr>parameters := own, student := m1, student_obs_normalizer := m2,
             teacher := m3, teacher_obs_normalizer := m4\<rparr>)"
      using l0 l1 l2 l3 l4 none by (simp add: super_load_state_dict_def)
    then show ?thesis
      using False result branch loaded
      by (auto simp: Module_eval_def Module_train_def split: if_splits)
  qed
qed

subsection \<open>Failures of the routing\<close>

lemma obs_list_present:
  assumes "list_all (\<lambda>g. map_of obs g \<noteq> None) names"
  shows "obs_list obs names = Inr (map (\<lambda>g. the (map_of obs g)) names)"
  using assms by (induction names) auto

lemma obs_list_absent:
  assumes "\<not> list_all (\<lambda>g. map_of obs g \<noteq> None) names"
  shows "\<exists>g \<in> set names. map_of obs g = None \<and> obs_list obs names = Inl (KeyError g)"
  using assms by (induction names) (auto split: option.splits)

text \<open>
  Claim C4, as amended. A group of the role's list that is absent from the supplied
  mapping raises \<open>KeyError\<close> at the routing call, and \<^verbatim>\<open>act\<close>, \<^verbatim>\<open>act_inference\<close>,
  \<^verbatim>\<open>evaluate\<close> and (with student normalization enabled) \<^verbatim>\<open>update_normalization\<close>
  raise the routing error without a result and without a change of the module. The rank
  of the tensors is not checked when routing: with every group present the result is
  the one of the concatenation along the last axis, whatever the ranks are.
\<close>

theorem routing_failures:
  assumes names: "map_of (obs_groups self) role = Some names"
  shows "(list_all (\<lambda>g. map_of obs g \<noteq> None) names \<longrightarrow>
            get_role_obs role self obs = torch_cat (map (\<lambda>g. the (map_of obs g)) names))
       \<and> (\<not> list_all (\<lambda>g. map_of obs g \<noteq> None) names \<longrightarrow>
            (\<exists>g \<in> set names. map_of obs g = None
                \<and> get_role_obs role self obs = Inl (KeyError g)))
       \<and> (get_student_obs self obs = Inl e \<longrightarrow>
            act N self obs sample = (Inl e, self)
            \<and> act_inference N self obs = (Inl e, self)
            \<and> (student_obs_normalization self \<longrightarrow>
                  update_normalization N self obs = (Inl e, self)))
       \<and> (get_teacher_obs self obs = Inl e \<longrightarrow> evaluate N self obs = (Inl e, self))"
proof -
  have present: "get_role_obs role self obs = torch_cat (map (\<lambda>g. the (map_of obs g)) names)"
    if "list_all (\<lambda>g. map_of obs g \<noteq> None) names"
    using names obs_list_present[OF that] by (simp add: get_role_obs_def)
  have absent: "\<exists>g \<in> set names. map_of obs g = None
                \<and> get_role_obs role self obs = Inl (KeyError g)"
    if "\<not> list_all (\<lambda>g. map_of obs g \<noteq> None) names"
    using names obs_list_absent[OF that] by (auto simp: get_role_obs_def)
  show ?thesis
    using present absent
    by (simp add: act_def act_inference_def update_normalization_def evaluate_def)
qed

subsection \<open>The statements on the small instance\<close>

lemmas example_defs =
  example_module_def example_module_log_def example_networks_def example_obs_def
  example_groups_def Identity_def

lemmas load_defs =
  any_key_def load_state_dict_def super_load_state_dict_def Module_load_state_dict_def
  load_raises_def unexpected_keys_def missing_keys_def prefixed_keys_def shape_mismatch_def
  any_shape_mismatch_def state_dict_keys_def load_tensors_def load_param_def load_child_def
  input_param_def index_error_def any_index_error_def Module_eval_def Module_train_def

lemma example_init:
  "StudentTeacher_init example_networks example_obs example_groups 2 False False [4] [4] ''elu'' 2
     ''scalar'' = Inr example_module"
  by (simp add: StudentTeacher_init_def example_networks_def example_obs_def example_groups_def
      example_module_def raise_None_def new_normalizer_def new_noise_def Module_eval_def
      Module_train_def scale_tensor_def ones_def numeral_2_eq_2 numeral_3_eq_3)

lemma example_init_log:
  "StudentTeacher_init example_networks example_obs example_groups 2 False False [4] [4] ''elu'' 2
     ''log'' = Inr example_module_log"
  by (simp add: StudentTeacher_init_def example_networks_def example_obs_def example_groups_def
      example_module_def example_module_log_def raise_None_def new_normalizer_def new_noise_def
      Module_eval_def Module_train_def scale_tensor_def ones_def torch_log_def
      numeral_2_eq_2 numeral_3_eq_3)

text \<open>The statement on the small instance.\<close>

theorem load_state_dict_rejects_unknown_witness:
  "\<not> any_key ''actor'' example_critic_checkpoint
   \<and> \<not> any_key ''student'' example_critic_checkpoint
   \<and> load_state_dict example_module example_critic_checkpoint True
       = (Inl ValueError_state_dict, example_module)"
proof -
  have a: "\<not> any_key ''actor'' example_critic_checkpoint"
    by (simp add: any_key_def example_critic_checkpoint_def)
  have b: "\<not> any_key ''student'' example_critic_checkpoint"
    by (simp add: any_key_def example_critic_checkpoint_def)
  show ?thesis
    using a b load_state_dict_rejects_unknown[OF a b, of example_module True] by simp
qed

text \<open>
  The claim without the condition on the delegated loads fails: the teacher of the
  instance has no normalizer, the checkpoint of a policy with a normalizer is loaded
  strictly, and the load of the normalizer raises on the unexpected key.
\<close>

theorem load_prior_policy_checkpoint_counterexample:
  "any_key ''actor'' example_policy_checkpoint
   \<and> fst (load_state_dict example_module example_policy_checkpoint True) = Inl RuntimeError
   \<and> \<not> loaded_teacher (snd (load_state_dict example_module example_policy_checkpoint True))"
  by (simp add: example_policy_checkpoint_def example_defs load_defs)

text \<open>The statement on the small instance.\<close>

theorem load_prior_policy_checkpoint_witness:
  "any_key ''actor'' example_mixed_checkpoint \<and> any_key ''student'' example_mixed_checkpoint
   \<and> rename_keys example_mixed_checkpoint ([], []) = ([(''0.bias'', Tensor [2] [7, 8])], [])
   \<and> fst (load_state_dict example_module example_mixed_checkpoint False) = Inr False
   \<and> loaded_teacher (snd (load_state_dict example_module example_mixed_checkpoint False))
   \<and> student (snd (load_state_dict example_module example_mixed_checkpoint False))
       = student example_module
   \<and> tensors (teacher (snd (load_state_dict example_module example_mixed_checkpoint False)))
       = [(''0.weight'', Tensor [2, 3] [0, 0, 0, 0, 0, 0]), (''0.bias'', Tensor [2] [7, 8])]"
proof -
  have marker: "any_key ''actor'' example_mixed_checkpoint"
    by (simp add: any_key_def example_mixed_checkpoint_def)
  have other: "any_key ''student'' example_mixed_checkpoint"
    by (simp add: any_key_def example_mixed_checkpoint_def)
  have renamed: "rename_keys example_mixed_checkpoint ([], [])
      = ([(''0.bias'', Tensor [2] [7, 8])], [])"
    by (simp add: example_mixed_checkpoint_def)
  obtain r self' where
    result: "load_state_dict example_module example_mixed_checkpoint False = (r, self')"
    by (cases "load_state_dict example_module example_mixed_checkpoint False")
  have ok: "fst (Module_load_state_dict (teacher example_module)
                   [(''0.bias'', Tensor [2] [7, 8])] False) = Inr ()
          \<and> fst (Module_load_state_dict (teacher_obs_normalizer example_module) [] False) = Inr ()"
    by (simp add: example_defs load_defs)
  have loaded: "load_tensors [(''0.bias'', Tensor [2] [7, 8])] [] (tensors (teacher example_module))
      = [(''0.weight'', Tensor [2, 3] [0, 0, 0, 0, 0, 0]), (''0.bias'', Tensor [2] [7, 8])]"
    by (simp add: example_defs load_defs)
  show ?thesis
    using load_prior_policy_checkpoint[OF marker renamed result] ok loaded marker other renamed
    by (simp add: result)
qed

text \<open>
  A count stored as a tensor with one element is accepted for the entry without
  dimensions, in both branches, also when the load is not strict.
\<close>

lemma example_policy_count_loaded:
  "fst (load_state_dict example_module_normalized example_policy_count_checkpoint False)
     = Inr False
   \<and> loaded_teacher
        (snd (load_state_dict example_module_normalized example_policy_count_checkpoint False))
   \<and> map_of (tensors (teacher_obs_normalizer
        (snd (load_state_dict example_module_normalized example_policy_count_checkpoint False))))
        ''count'' = Some (Tensor [] [5])"
  by (simp add: example_policy_count_checkpoint_def example_module_normalized_def
      example_defs load_defs)

lemma example_student_count_loaded:
  "fst (load_state_dict example_module_normalized example_student_count_checkpoint False)
     = Inr True
   \<and> loaded_teacher
        (snd (load_state_dict example_module_normalized example_student_count_checkpoint False))
   \<and> map_of (tensors (teacher_obs_normalizer
        (snd (load_state_dict example_module_normalized example_student_count_checkpoint False))))
        ''count'' = Some (Tensor [] [5])"
  by (simp add: example_student_count_checkpoint_def example_module_normalized_def
      example_defs load_defs)

text \<open>
  The claim without the condition fails: a checkpoint that holds the student only,
  loaded strictly, raises for the missing keys.
\<close>

theorem load_prior_distillation_checkpoint_counterexample:
  "\<not> any_key ''actor'' example_student_checkpoint
   \<and> any_key ''student'' example_student_checkpoint
   \<and> fst (load_state_dict example_module example_student_checkpoint True) = Inl RuntimeError
   \<and> \<not> loaded_teacher (snd (load_state_dict example_module example_student_checkpoint True))"
  by (simp add: example_student_checkpoint_def example_defs load_defs)

text \<open>The statement on the small instance.\<close>

theorem load_prior_distillation_checkpoint_witness:
  "\<not> any_key ''actor'' example_student_checkpoint
   \<and> any_key ''student'' example_student_checkpoint
   \<and> \<not> any_index_error example_student_checkpoint example_module
   \<and> \<not> load_raises example_student_checkpoint False (state_dict_keys example_module)
         (any_shape_mismatch example_student_checkpoint example_module)
   \<and> fst (load_state_dict example_module example_student_checkpoint False) = Inr True
   \<and> loaded_teacher (snd (load_state_dict example_module example_student_checkpoint False))
   \<and> tensors (student (snd (load_state_dict example_module example_student_checkpoint False)))
       = [(''0.weight'', Tensor [2, 2] [1, 2, 3, 4]), (''0.bias'', Tensor [2] [5, 6])]"
proof -
  have no_actor: "\<not> any_key ''actor'' example_student_checkpoint"
    by (simp add: any_key_def example_student_checkpoint_def)
  have marker: "any_key ''student'' example_student_checkpoint"
    by (simp add: any_key_def example_student_checkpoint_def)
  obtain r self' where
    result: "load_state_dict example_module example_student_checkpoint False = (r, self')"
    by (cases "load_state_dict example_module example_student_checkpoint False")
  have ok: "\<not> load_raises example_student_checkpoint False (state_dict_keys example_module)
         (any_shape_mismatch example_student_checkpoint example_module)"
    by (simp add: example_student_checkpoint_def example_defs load_defs)
  have indexed: "\<not> any_index_error example_student_checkpoint example_module"
    by (simp add: example_student_checkpoint_def example_defs load_defs)
  have loaded: "load_tensors example_student_checkpoint ''student.'' (tensors (student example_module))
      = [(''0.weight'', Tensor [2, 2] [1, 2, 3, 4]), (''0.bias'', Tensor [2] [5, 6])]"
    by (simp add: example_student_checkpoint_def example_defs load_defs)
  show ?thesis
    using load_prior_distillation_checkpoint[OF no_actor marker result] ok indexed loaded
      no_actor marker
    by (simp add: result)
qed

text \<open>
  The claim that a tensor of rank other than 2 is rejected by the routing call fails:
  a one-dimensional observation is routed without an error.
\<close>

theorem routing_failures_counterexample:
  "map_of (obs_groups example_module) ''policy'' = Some [''a'']
   \<and> map_of [(''a'', Tensor [3] [1, 2, 3])] ''a'' = Some (Tensor [3] [1, 2, 3])
   \<and> length (shape (Tensor [3] [1, 2, 3])) \<noteq> 2
   \<and> get_student_obs example_module [(''a'', Tensor [3] [1, 2, 3])] = Inr (Tensor [3] [1, 2, 3])"
  by (simp add: get_student_obs_def get_role_obs_def torch_cat_def cat_skip_def numel_def
      tensor_rows_def example_defs)

text \<open>The statement on the small instance.\<close>

theorem routing_failures_witness:
  "map_of (obs_groups example_module) ''teacher'' = Some [''a'', ''b'']
   \<and> \<not> list_all (\<lambda>g. map_of [(''a'', Tensor [1, 2] [1, 2])] g \<noteq> None) [''a'', ''b'']
   \<and> get_teacher_obs example_module [(''a'', Tensor [1, 2] [1, 2])] = Inl (KeyError ''b'')
   \<and> evaluate example_networks example_module [(''a'', Tensor [1, 2] [1, 2])]
       = (Inl (KeyError ''b''), example_module)
   \<and> list_all (\<lambda>g. map_of example_obs g \<noteq> None) [''a'', ''b'']
   \<and> get_teacher_obs example_module example_obs = Inr (Tensor [1, 3] [1, 2, 3])"
proof -
  have names: "map_of (obs_groups example_module) ''teacher'' = Some [''a'', ''b'']"
    by (simp add: example_defs)
  have absent: "\<not> list_all (\<lambda>g. map_of [(''a'', Tensor [1, 2] [1, 2])] g \<noteq> None) [''a'', ''b'']"
    by simp
  have present: "list_all (\<lambda>g. map_of example_obs g \<noteq> None) [''a'', ''b'']"
    by (simp add: example_defs)
  have cat: "torch_cat (map (\<lambda>g. the (map_of example_obs g)) [''a'', ''b''])
      = Inr (Tensor [1, 3] [1, 2, 3])"
    by (simp add: torch_cat_def cat_skip_def numel_def tensor_rows_def example_defs)
  have raised: "get_teacher_obs example_module [(''a'', Tensor [1, 2] [1, 2])] = Inl (KeyError ''b'')"
    using routing_failures[OF names, of "[(''a'', Tensor [1, 2] [1, 2])]"] absent
    by (auto simp: get_teacher_obs_def)
  show ?thesis
    using routing_failures[OF names, of "[(''a'', Tensor [1, 2] [1, 2])]" "KeyError ''b''"
        example_networks "\<lambda>d. None"]
      routing_failures[OF names, of example_obs] names absent present cat raised
    by (simp add: get_teacher_obs_def)
qed

text \<open>
  The claim for every configuration fails: with an empty list of groups for the student
  the construction succeeds with the width 0, and the routing call raises, so there is
  no routed tensor of that width.
\<close>

theorem router_width_counterexample:
  "StudentTeacher_init example_networks example_obs example_groups_empty 2 False False [4] [4]
     ''elu'' 2 ''scalar'' = Inr example_module_empty
   \<and> map_of (obs_groups example_module_empty) ''policy'' = Some []
   \<and> num_obs example_obs [] 0 = Inr 0
   \<and> isl (get_student_obs example_module_empty example_obs)"
  by (simp add: StudentTeacher_init_def example_groups_empty_def example_module_empty_def
      example_defs raise_None_def new_normalizer_def new_noise_def Module_eval_def
      Module_train_def scale_tensor_def ones_def numeral_2_eq_2 numeral_3_eq_3
      get_student_obs_def get_role_obs_def torch_cat_def)

text \<open>The statement on the small instance.\<close>

theorem router_width_witness:
  "StudentTeacher_init example_networks example_obs example_groups 2 False False [4] [4] ''elu'' 2
     ''scalar'' = Inr example_module
   \<and> map_of example_groups ''teacher'' = Some [''a'', ''b'']
   \<and> list_all (\<lambda>g. has_shape example_batch [2, feature_width example_obs g] g) [''a'', ''b'']
   \<and> num_obs example_obs [''a'', ''b''] 0 = Inr 3
   \<and> get_teacher_obs example_module example_batch = Inr (Tensor [2, 3] [1, 2, 5, 3, 4, 6])"
proof -
  have names: "map_of example_groups ''teacher'' = Some [''a'', ''b'']"
    by (simp add: example_defs)
  have batch: "list_all (\<lambda>g. has_shape example_batch [2, feature_width example_obs g] g)
      [''a'', ''b'']"
    by (simp add: has_shape_def feature_width_def example_batch_def example_defs)
  have width: "sum_list (map (feature_width example_obs) [''a'', ''b'']) = 3"
    by (simp add: feature_width_def example_defs)
  have routed: "get_teacher_obs example_module example_batch = Inr (Tensor [2, 3] [1, 2, 5, 3, 4, 6])"
    by (simp add: get_teacher_obs_def get_role_obs_def torch_cat_def cat_skip_def numel_def
        tensor_rows_def example_batch_def example_defs numeral_2_eq_2)
  have role: "''teacher'' = ''policy'' \<or> ''teacher'' = ''teacher''"
    by simp
  show ?thesis
    using router_width[OF example_init role names batch] names batch width routed example_init
    by simp
qed

text \<open>The statement on the small instance.\<close>

theorem noise_parameterization_equivalence_witness:
  "list_all (\<lambda>x. 0 < x) (data (Tensor [2] [2, 2]))
   \<and> StudentTeacher_init example_networks example_obs example_groups 2 False False [4] [4] ''elu'' 2
        ''log'' = Inr example_module_log
   \<and> StudentTeacher_init example_networks example_obs example_groups 2 False False [4] [4] ''elu'' 2
        ''scalar'' = Inr example_module
   \<and> get_parameter example_module_log ''log_std'' = Inr (torch_log (Tensor [2] [2, 2]))
   \<and> get_parameter example_module ''std'' = Inr (Tensor [2] [2, 2])
   \<and> fst (update_distribution example_networks example_module (Tensor [1, 2] [1, 2])) = Inr ()
   \<and> action_std (snd (update_distribution example_networks example_module_log (Tensor [1, 2] [1, 2])))
       = Inr (Tensor [1, 2] [2, 2])
   \<and> action_std (snd (update_distribution example_networks example_module (Tensor [1, 2] [1, 2])))
       = Inr (Tensor [1, 2] [2, 2])"
proof -
  have positive: "list_all (\<lambda>x. 0 < x) (data (Tensor [2] [2, 2]))" by simp
  have log_mode: "noise_std_type example_module_log = ''log''"
    "get_parameter example_module_log ''log_std'' = Inr (torch_log (Tensor [2] [2, 2]))"
    by (simp_all add: get_parameter_def torch_log_def example_defs)
  have scalar_mode: "noise_std_type example_module = ''scalar''"
    "get_parameter example_module ''std'' = Inr (Tensor [2] [2, 2])"
    by (simp_all add: get_parameter_def example_defs)
  have same: "student example_module_log = student example_module"
    by (simp add: example_defs)
  have scalar: "update_distribution example_networks example_module (Tensor [1, 2] [1, 2])
      = (Inr (), example_module\<lparr>distribution :=
            Some (Normal (Tensor [1, 2] [0, 0]) (Tensor [1, 2] [2, 2]))\<rparr>)"
    by (simp add: update_distribution_def call_module_def raise_None_def noise_std_def
        get_parameter_def expand_as_def numel_def example_defs numeral_2_eq_2)
  have ok: "fst (update_distribution example_networks example_module (Tensor [1, 2] [1, 2]))
      = Inr ()"
    unfolding scalar by simp
  have std_scalar:
    "action_std (snd (update_distribution example_networks example_module (Tensor [1, 2] [1, 2])))
      = Inr (Tensor [1, 2] [2, 2])"
    unfolding scalar by (simp add: action_std_def)
  have eq:
    "action_std (snd (update_distribution example_networks example_module_log (Tensor [1, 2] [1, 2])))
      = action_std (snd (update_distribution example_networks example_module (Tensor [1, 2] [1, 2])))"
    using noise_parameterization_equivalence[OF positive log_mode scalar_mode same,
        of "Tensor [1, 2] [0, 0]" example_networks "Tensor [1, 2] [1, 2]"] ok
    by blast
  show ?thesis
    using positive log_mode(2) scalar_mode(2) example_init example_init_log ok eq std_scalar
    by simp
qed

text \<open>The statement on the small instance.\<close>

theorem teacher_isolation_witness:
  "\<not> student_obs_normalization example_module
   \<and> teacher (foldl (run_call example_networks) example_module example_calls)
       = teacher example_module
   \<and> teacher_obs_normalizer (foldl (run_call example_networks) example_module example_calls)
       = teacher_obs_normalizer example_module
   \<and> student_obs_normalizer (foldl (run_call example_networks) example_module example_calls)
       = student_obs_normalizer example_module"
proof -
  have off: "\<not> student_obs_normalization example_module"
    by (simp add: example_defs)
  show ?thesis
    using teacher_isolation[of example_networks example_module example_calls] off
    by simp
qed

text \<open>The statement on the small instance.\<close>

theorem act_inference_deterministic_witness:
  "act example_networks example_module example_obs (\<lambda>d. Some (loc d))
     = (Inr (Tensor [1, 2] [0, 0]),
        example_module\<lparr>distribution :=
          Some (Normal (Tensor [1, 2] [0, 0]) (Tensor [1, 2] [2, 2]))\<rparr>)
   \<and> act_inference example_networks example_module example_obs
       = (Inr (Tensor [1, 2] [0, 0]), example_module)"
proof -
  have acted: "act example_networks example_module example_obs (\<lambda>d. Some (loc d))
     = (Inr (Tensor [1, 2] [0, 0]),
        example_module\<lparr>distribution :=
          Some (Normal (Tensor [1, 2] [0, 0]) (Tensor [1, 2] [2, 2]))\<rparr>)"
    by (simp add: act_def get_student_obs_def get_role_obs_def torch_cat_def cat_skip_def
        tensor_rows_def update_distribution_def call_module_def raise_None_def noise_std_def
        get_parameter_def expand_as_def numel_def example_defs numeral_2_eq_2)
  have "fst (act_inference example_networks example_module example_obs)
      = Inr (Tensor [1, 2] [0, 0])
      \<and> snd (act_inference example_networks example_module example_obs) = example_module"
    using act_inference_deterministic[of example_networks example_module example_obs
        "\<lambda>d. Some (loc d)" "Tensor [1, 2] [0, 0]"
        "example_module\<lparr>distribution :=
          Some (Normal (Tensor [1, 2] [0, 0]) (Tensor [1, 2] [2, 2]))\<rparr>"] acted
    by (simp add: action_mean_def)
  then show ?thesis using acted by (simp add: prod_eq_iff)
qed

text \<open>The statement on the small instance.\<close>

theorem unknown_noise_type_unreachable_witness:
  "''tanh'' \<noteq> ''scalar'' \<and> ''tanh'' \<noteq> ''log''
   \<and> (\<exists>e. StudentTeacher_init example_networks example_obs example_groups 2 False False [4] [4]
             ''elu'' 2 ''tanh'' = Inl e)
   \<and> reachable example_networks (train example_module True)
   \<and> fst (update_distribution example_networks (train example_module True) (Tensor [1, 2] [1, 2]))
       \<noteq> Inl (ValueError_noise_std ''scalar'')"
proof -
  have r: "reachable example_networks (train example_module True)"
    by (rule reachable.after_train, rule reachable.constructed, rule example_init)
  show ?thesis
    using unknown_noise_type_unreachable[of "''tanh''" example_networks example_obs
        example_groups 2 False False "[4]" "[4]" "''elu''" 2 "train example_module True"
        "Tensor [1, 2] [0, 0]" "''scalar''" "Tensor [1, 2] [1, 2]" example_obs "\<lambda>d. None"] r
    by simp
qed

end
